theory Spec2Isabelle
  imports Main "HOL-Library.Word" "HOL-Library.Signed_Division"
begin

unbundle bit_operations_syntax

section \<open>Data model of drivers/hwmon/gpd-fan.c\<close>

text \<open>
  C types: \<open>u8\<close> and \<open>u16\<close> are words of that width; \<open>unsigned long\<close> and \<open>long\<close> are
  64 bits wide (the driver is for x86-64 handhelds), \<open>long\<close> being read through \<open>sint\<close>.
  Values of type \<open>int\<close>, \<open>s32\<close> and \<open>s16\<close> that a function returns are HOL integers; every
  narrowing conversion of the source is written out (\<open>word_of_int\<close>, \<open>ucast\<close>, \<open>s16_cast\<close>).
  Error returns are the negative errno values of the kernel, as in the source.
\<close>

type_synonym u8 = "8 word"
type_synonym u16 = "16 word"
type_synonym ulong = "64 word"

definition EINTR :: int where "EINTR = 4"
definition EINVAL :: int where "EINVAL = 22"
definition EOPNOTSUPP :: int where "EOPNOTSUPP = 95"

datatype gpd_board = win_mini | win4_6800u | win_max_2

datatype FAN_PWM_ENABLE = DISABLE | MANUAL | AUTOMATIC

record gpd_board_quirk =
  board_name :: string
  board :: gpd_board
  addr_port :: u8
  data_port :: u8
  manual_control_enable :: u16
  rpm_read :: u16
  pwm_write :: u16
  pwm_max :: u16

record gpd_driver_priv =
  pwm_enable :: FAN_PWM_ENABLE
  pwm_value :: u8
  fan_speed_cached :: u16
  read_pwm_cached :: u8
  fan_speed_last_update :: ulong
  read_pwm_last_update :: ulong
  quirk :: gpd_board_quirk

definition gpd_win_mini_quirk :: gpd_board_quirk where
  "gpd_win_mini_quirk = \<lparr> board_name = ''win_mini'', board = win_mini,
     addr_port = 0x4E, data_port = 0x4F, manual_control_enable = 0x047A,
     rpm_read = 0x0478, pwm_write = 0x047A, pwm_max = 244 \<rparr>"

definition gpd_win4_quirk :: gpd_board_quirk where
  "gpd_win4_quirk = \<lparr> board_name = ''win4'', board = win4_6800u,
     addr_port = 0x2E, data_port = 0x2F, manual_control_enable = 0xC311,
     rpm_read = 0xC880, pwm_write = 0xC311, pwm_max = 127 \<rparr>"

definition gpd_wm2_quirk :: gpd_board_quirk where
  "gpd_wm2_quirk = \<lparr> board_name = ''wm2'', board = win_max_2,
     addr_port = 0x4E, data_port = 0x4F, manual_control_enable = 0x0275,
     rpm_read = 0x0218, pwm_write = 0x1809, pwm_max = 184 \<rparr>"

definition gpd_module_quirks :: "gpd_board_quirk list" where
  "gpd_module_quirks = [gpd_win_mini_quirk, gpd_win4_quirk, gpd_wm2_quirk]"

section \<open>The embedded controller as the driver sees it\<close>

text \<open>
  The environment of the driver. \<open>ram\<close> is the EC register file reached through the
  indexed port protocol: a register holds the last byte written to it. \<open>trace\<close> logs every
  port instruction the driver executes, in order, so that "no hardware access" is
  \<open>trace\<close> unchanged. \<open>intr\<close> lists the outcomes of the coming calls of
  \<open>mutex_lock_interruptible\<close> (\<open>True\<close>: the wait is interrupted and the call returns
  \<open>-EINTR\<close>); when the list is used up every further acquisition succeeds. \<open>uninit\<close> gives
  the indeterminate byte that an uninitialised \<open>u8\<close> local holds, indexed by the register
  offset whose read was to fill that local: \<open>gpd_ecram_read\<close> leaves \<open>*val\<close> alone when it
  fails, and some callers look at the local all the same. \<open>jiffies\<close> is the tick counter;
  it is taken to stand still during one call of the driver.
\<close>

datatype io_event = Outb u8 u16 | Inb u16

record ec_hw =
  ram :: "u16 \<Rightarrow> u8"
  trace :: "io_event list"
  intr :: "bool list"
  uninit :: "u16 \<Rightarrow> u8"
  jiffies :: ulong

definition mutex_lock_interruptible :: "ec_hw \<Rightarrow> int \<times> ec_hw" where
  "mutex_lock_interruptible hw =
     (case intr hw of
        [] \<Rightarrow> (0, hw)
      | i # rest \<Rightarrow> (if i then - EINTR else 0, hw\<lparr>intr := rest\<rparr>))"

text \<open>
  \<open>gpd_ecram_read quirk offset val hw\<close>: the third argument is the content of \<open>*val\<close>
  before the call, the second component of the result its content after the call.
\<close>

definition gpd_ecram_read :: "gpd_board_quirk \<Rightarrow> u16 \<Rightarrow> u8 \<Rightarrow> ec_hw \<Rightarrow> int \<times> u8 \<times> ec_hw" where
  "gpd_ecram_read q offset val hw =
     (let aport = (ucast (addr_port q) :: u16);
          dport = (ucast (data_port q) :: u16);
          (ret, hw1) = mutex_lock_interruptible hw
      in if ret \<noteq> 0 then (ret, val, hw1)
         else (0, ram hw1 offset,
               hw1\<lparr>trace := trace hw1 @
                 [Outb 0x2E aport, Outb 0x11 dport,
                  Outb 0x2F aport, Outb (ucast (drop_bit 8 offset AND 0xFF)) dport,
                  Outb 0x2E aport, Outb 0x10 dport,
                  Outb 0x2F aport, Outb (ucast (offset AND 0xFF)) dport,
                  Outb 0x2E aport, Outb 0x12 dport,
                  Outb 0x2F aport, Inb dport]\<rparr>))"

definition gpd_ecram_write :: "gpd_board_quirk \<Rightarrow> u16 \<Rightarrow> u8 \<Rightarrow> ec_hw \<Rightarrow> int \<times> ec_hw" where
  "gpd_ecram_write q offset v hw =
     (let aport = (ucast (addr_port q) :: u16);
          dport = (ucast (data_port q) :: u16);
          (ret, hw1) = mutex_lock_interruptible hw
      in if ret \<noteq> 0 then (ret, hw1)
         else (0,
               hw1\<lparr>ram := (ram hw1)(offset := v),
                   trace := trace hw1 @
                 [Outb 0x2E aport, Outb 0x11 dport,
                  Outb 0x2F aport, Outb (ucast (drop_bit 8 offset AND 0xFF)) dport,
                  Outb 0x2E aport, Outb 0x10 dport,
                  Outb 0x2F aport, Outb (ucast (offset AND 0xFF)) dport,
                  Outb 0x2E aport, Outb 0x12 dport,
                  Outb 0x2F aport, Outb v dport]\<rparr>))"

section \<open>Reading the fan speed\<close>

definition gpd_generic_read_rpm_uncached :: "gpd_driver_priv \<Rightarrow> ec_hw \<Rightarrow> int \<times> ec_hw" where
  "gpd_generic_read_rpm_uncached st hw =
     (let q = quirk st;
          (ret, high, hw1) = gpd_ecram_read q (rpm_read q) (uninit hw (rpm_read q)) hw
      in if ret \<noteq> 0 then (ret, hw1)
         else
           let (ret2, low, hw2) =
                 gpd_ecram_read q (rpm_read q + 1) (uninit hw1 (rpm_read q + 1)) hw1
           in if ret2 \<noteq> 0 then (ret2, hw2)
              else (sint (push_bit 8 (ucast high :: 32 word) OR ucast low), hw2))"

definition gpd_win4_read_rpm_uncached :: "gpd_driver_priv \<Rightarrow> ec_hw \<Rightarrow> int \<times> ec_hw" where
  "gpd_win4_read_rpm_uncached st hw =
     (let q = quirk st;
          (r0, PWMCTR, hw1) = gpd_ecram_read q 0x1841 (uninit hw 0x1841) hw;
          hw2 = (if PWMCTR \<noteq> 0x7F then snd (gpd_ecram_write q 0x1841 0x7F hw1) else hw1);
          (ret, hw3) = gpd_generic_read_rpm_uncached st hw2
      in if ret < 0 then (ret, hw3)
         else if ret = 0 then
           let (r1, chip_id, hw4) = gpd_ecram_read q 0x2000 (uninit hw3 0x2000) hw3
           in if chip_id = 0x55 then
                let (r2, chip_ver, hw5) = gpd_ecram_read q 0x1060 (uninit hw4 0x1060) hw4
                in if r2 \<noteq> 0
                   then (ret, snd (gpd_ecram_write q 0x1060 (chip_ver OR 0x80) hw5))
                   else (ret, hw5)
              else (ret, hw4)
         else (ret, hw3))"

text \<open>The \<open>for\<close> loop of \<open>gpd_wm2_read_rpm_uncached\<close> over \<open>pwm_ctr_offset\<close>.\<close>

function gpd_wm2_pwm_ctr_loop :: "gpd_board_quirk \<Rightarrow> u16 \<Rightarrow> ec_hw \<Rightarrow> ec_hw" where
  "gpd_wm2_pwm_ctr_loop q pwm_ctr_offset hw =
     (if pwm_ctr_offset \<le> 0x1843 then
        let (r, PWMCTR, hw1) =
              gpd_ecram_read q pwm_ctr_offset (uninit hw pwm_ctr_offset) hw;
            hw2 = (if PWMCTR \<noteq> 0xB8
                   then snd (gpd_ecram_write q pwm_ctr_offset 0xB8 hw1) else hw1)
        in gpd_wm2_pwm_ctr_loop q (pwm_ctr_offset + 1) hw2
      else hw)"
  by pat_completeness auto

termination gpd_wm2_pwm_ctr_loop
proof (relation "measure (\<lambda>(q, off, hw). 0x1844 - unat off)")
  show "wf (measure (\<lambda>(q :: gpd_board_quirk, off :: u16, hw :: ec_hw). 0x1844 - unat off))"
    by simp
next
  fix q :: gpd_board_quirk and pwm_ctr_offset :: u16 and hw hw2 :: ec_hw
  assume le: "pwm_ctr_offset \<le> 0x1843"
  then have n: "unat pwm_ctr_offset \<le> 0x1843"
    by (simp add: word_le_nat_alt)
  then have "unat pwm_ctr_offset + unat (1 :: u16) < 2 ^ LENGTH(16)"
    by simp
  then have "unat (pwm_ctr_offset + 1) = unat pwm_ctr_offset + unat (1 :: u16)"
    by (simp only: unat_add_lem)
  with n show "((q, pwm_ctr_offset + 1, hw2), (q, pwm_ctr_offset, hw))
      \<in> measure (\<lambda>(q, off, hw). 0x1844 - unat off)"
    by simp
qed

declare gpd_wm2_pwm_ctr_loop.simps [simp del]

definition gpd_wm2_read_rpm_uncached :: "gpd_driver_priv \<Rightarrow> ec_hw \<Rightarrow> int \<times> ec_hw" where
  "gpd_wm2_read_rpm_uncached st hw =
     (let q = quirk st;
          hw1 = gpd_wm2_pwm_ctr_loop q 0x1841 hw
      in gpd_generic_read_rpm_uncached st hw1)"

text \<open>
  \<open>time_after(a, b)\<close> of linux/jiffies.h is \<open>((long)((b) - (a)) < 0)\<close>. \<open>HZ\<close>, the number
  of ticks in a second, is a constant of the kernel configuration and a parameter here.
\<close>

definition time_after :: "ulong \<Rightarrow> ulong \<Rightarrow> bool" where
  "time_after a b = (sint (b - a) < 0)"

definition gpd_read_rpm :: "ulong \<Rightarrow> gpd_driver_priv \<Rightarrow> ec_hw \<Rightarrow> int \<times> gpd_driver_priv \<times> ec_hw" where
  "gpd_read_rpm HZ st hw =
     (if time_after (jiffies hw) (fan_speed_last_update st + HZ) then
        let (ret, hw1) =
              (case board (quirk st) of
                 win_mini \<Rightarrow> gpd_generic_read_rpm_uncached st hw
               | win4_6800u \<Rightarrow> gpd_win4_read_rpm_uncached st hw
               | win_max_2 \<Rightarrow> gpd_wm2_read_rpm_uncached st hw)
        in if ret < 0 then (ret, st, hw1)
           else
             let st1 = st\<lparr>fan_speed_cached := word_of_int ret,
                          fan_speed_last_update := jiffies hw1\<rparr>
             in (uint (fan_speed_cached st1), st1, hw1)
      else (uint (fan_speed_cached st), st, hw))"

section \<open>Reading and writing the duty cycle\<close>

text \<open>The conversion \<open>(s16)x\<close> of an \<open>int\<close>.\<close>

definition s16_cast :: "int \<Rightarrow> int" where
  "s16_cast x = sint (word_of_int x :: 16 word)"

text \<open>
  C divides integers with truncation towards zero: \<open>sdiv\<close>. A \<open>pwm_max\<close> of 0 would
  make the division below undefined in C; none of the three boards has it.
\<close>

definition gpd_wm2_read_pwm_uncached :: "gpd_driver_priv \<Rightarrow> ec_hw \<Rightarrow> int \<times> ec_hw" where
  "gpd_wm2_read_pwm_uncached st hw =
     (let q = quirk st;
          (ret, var, hw1) = gpd_ecram_read q (pwm_write q) (uninit hw (pwm_write q)) hw
      in if ret < 0 then (s16_cast ret, hw1)
         else (s16_cast (uint var * 255 sdiv uint (pwm_max q)), hw1))"

definition gpd_read_pwm :: "ulong \<Rightarrow> gpd_driver_priv \<Rightarrow> ec_hw \<Rightarrow> int \<times> gpd_driver_priv \<times> ec_hw" where
  "gpd_read_pwm HZ st hw =
     (case board (quirk st) of
        win_mini \<Rightarrow> (uint (pwm_value st), st, hw)
      | win4_6800u \<Rightarrow> (uint (pwm_value st), st, hw)
      | win_max_2 \<Rightarrow>
          if time_after (jiffies hw) (read_pwm_last_update st + HZ) then
            let (ret, hw1) = gpd_wm2_read_pwm_uncached st hw
            in if ret < 0 then (ret, st, hw1)
               else
                 let st1 = st\<lparr>read_pwm_cached := word_of_int ret,
                              read_pwm_last_update := jiffies hw1\<rparr>
                 in (uint (read_pwm_cached st1), st1, hw1)
          else (uint (read_pwm_cached st), st, hw))"

text \<open>
  \<open>actual = val * (quirk->pwm_max - 1) / 255 + 1\<close>: computed in \<open>int\<close>, then narrowed
  to \<open>u8\<close>.
\<close>

definition gpd_generic_write_pwm :: "u8 \<Rightarrow> gpd_driver_priv \<Rightarrow> ec_hw \<Rightarrow> int \<times> ec_hw" where
  "gpd_generic_write_pwm val st hw =
     (let q = quirk st;
          actual = (word_of_int (uint val * (uint (pwm_max q) - 1) sdiv 255 + 1) :: u8)
      in gpd_ecram_write q (pwm_write q) actual hw)"

definition gpd_win_mini_write_pwm :: "u8 \<Rightarrow> gpd_driver_priv \<Rightarrow> ec_hw \<Rightarrow> int \<times> ec_hw" where
  "gpd_win_mini_write_pwm val st hw =
     (if pwm_enable st = MANUAL then gpd_generic_write_pwm val st hw else (0, hw))"

definition gpd_wm2_write_pwm :: "u8 \<Rightarrow> gpd_driver_priv \<Rightarrow> ec_hw \<Rightarrow> int \<times> ec_hw" where
  "gpd_wm2_write_pwm val st hw =
     (if pwm_enable st \<noteq> DISABLE then gpd_generic_write_pwm val st hw else (0, hw))"

definition gpd_write_pwm :: "u8 \<Rightarrow> gpd_driver_priv \<Rightarrow> ec_hw \<Rightarrow> int \<times> ec_hw" where
  "gpd_write_pwm val st hw =
     (case board (quirk st) of
        win_mini \<Rightarrow> gpd_win_mini_write_pwm val st hw
      | win4_6800u \<Rightarrow> gpd_generic_write_pwm val st hw
      | win_max_2 \<Rightarrow> gpd_wm2_write_pwm val st hw)"

section \<open>Setting the mode\<close>

definition gpd_win_mini_set_pwm_enable :: "FAN_PWM_ENABLE \<Rightarrow> gpd_driver_priv \<Rightarrow> ec_hw \<Rightarrow> int \<times> ec_hw" where
  "gpd_win_mini_set_pwm_enable enable st hw =
     (case enable of
        DISABLE \<Rightarrow> gpd_generic_write_pwm 255 st hw
      | MANUAL \<Rightarrow> gpd_generic_write_pwm (pwm_value st) st hw
      | AUTOMATIC \<Rightarrow> (let q = quirk st in gpd_ecram_write q (pwm_write q) 0 hw))"

definition gpd_wm2_set_pwm_enable :: "FAN_PWM_ENABLE \<Rightarrow> gpd_driver_priv \<Rightarrow> ec_hw \<Rightarrow> int \<times> ec_hw" where
  "gpd_wm2_set_pwm_enable enable st hw =
     (let q = quirk st
      in case enable of
           DISABLE \<Rightarrow>
             (let (ret, hw1) = gpd_generic_write_pwm 255 st hw
              in if ret \<noteq> 0 then (ret, hw1)
                 else gpd_ecram_write q (manual_control_enable q) 1 hw1)
         | MANUAL \<Rightarrow>
             (let (ret, hw1) = gpd_generic_write_pwm (pwm_value st) st hw
              in if ret \<noteq> 0 then (ret, hw1)
                 else gpd_ecram_write q (manual_control_enable q) 1 hw1)
         | AUTOMATIC \<Rightarrow> gpd_ecram_write q (manual_control_enable q) 0 hw)"

definition gpd_set_pwm_enable :: "FAN_PWM_ENABLE \<Rightarrow> gpd_driver_priv \<Rightarrow> ec_hw \<Rightarrow> int \<times> ec_hw" where
  "gpd_set_pwm_enable enable st hw =
     (case board (quirk st) of
        win_mini \<Rightarrow> gpd_win_mini_set_pwm_enable enable st hw
      | win4_6800u \<Rightarrow> gpd_win_mini_set_pwm_enable enable st hw
      | win_max_2 \<Rightarrow> gpd_wm2_set_pwm_enable enable st hw)"

section \<open>The hwmon callbacks\<close>

text \<open>
  From linux/hwmon.h: the sensor types, and the attribute numbers of the \<open>pwm\<close> and
  \<open>fan\<close> channels that the driver names. From linux/minmax.h: \<open>in_range(val, start, len)\<close>
  on a 64-bit \<open>val\<close> is \<open>in_range64\<close>, the unsigned test \<open>(val - start) < len\<close>;
  \<open>clamp_val(val, lo, hi)\<close> is \<open>min(max(val, lo), hi)\<close> in the (signed) type of \<open>val\<close>.
\<close>

datatype hwmon_sensor_types =
  hwmon_chip | hwmon_temp | hwmon_in | hwmon_curr | hwmon_power | hwmon_energy
  | hwmon_humidity | hwmon_fan | hwmon_pwm | hwmon_intrusion

definition hwmon_fan_input :: "32 word" where "hwmon_fan_input = 1"
definition hwmon_pwm_input :: "32 word" where "hwmon_pwm_input = 0"
definition hwmon_pwm_enable :: "32 word" where "hwmon_pwm_enable = 1"

definition in_range64 :: "64 word \<Rightarrow> 64 word \<Rightarrow> 64 word \<Rightarrow> bool" where
  "in_range64 val start len = (val - start < len)"

definition clamp_val :: "64 word \<Rightarrow> 64 word \<Rightarrow> 64 word \<Rightarrow> 64 word" where
  "clamp_val val lo hi =
     (let m = (if lo <s val then val else lo) in if m <s hi then m else hi)"

text \<open>
  The assignment of a \<open>long\<close> to the \<open>enum FAN_PWM_ENABLE\<close> field, and the field read
  back as a number. Only 0, 1 and 2 reach the assignment.
\<close>

definition FAN_PWM_ENABLE_of_long :: "64 word \<Rightarrow> FAN_PWM_ENABLE" where
  "FAN_PWM_ENABLE_of_long val =
     (if val = 0 then DISABLE else if val = 1 then MANUAL else AUTOMATIC)"

definition long_of_FAN_PWM_ENABLE :: "FAN_PWM_ENABLE \<Rightarrow> int" where
  "long_of_FAN_PWM_ENABLE e = (case e of DISABLE \<Rightarrow> 0 | MANUAL \<Rightarrow> 1 | AUTOMATIC \<Rightarrow> 2)"

text \<open>The permissions are the octal 0444 and 0644 of the source.\<close>

definition gpd_fan_hwmon_is_visible :: "hwmon_sensor_types \<Rightarrow> 32 word \<Rightarrow> nat" where
  "gpd_fan_hwmon_is_visible type attr =
     (if type = hwmon_fan \<and> attr = hwmon_fan_input then 4 * 64 + 4 * 8 + 4
      else if type = hwmon_pwm then
        (if attr = hwmon_pwm_enable \<or> attr = hwmon_pwm_input then 6 * 64 + 4 * 8 + 4 else 0)
      else 0)"

text \<open>
  \<open>gpd_fan_hwmon_read\<close> returns the status and the content of \<open>*val\<close> after the call
  (\<open>None\<close>: not written).
\<close>

definition gpd_fan_hwmon_read ::
  "ulong \<Rightarrow> hwmon_sensor_types \<Rightarrow> 32 word \<Rightarrow> gpd_driver_priv \<Rightarrow> ec_hw
     \<Rightarrow> int \<times> int option \<times> gpd_driver_priv \<times> ec_hw" where
  "gpd_fan_hwmon_read HZ type attr st hw =
     (if type = hwmon_fan then
        (if attr = hwmon_fan_input then
           let (ret, st1, hw1) = gpd_read_rpm HZ st hw
           in if ret < 0 then (ret, None, st1, hw1) else (0, Some ret, st1, hw1)
         else (- EOPNOTSUPP, None, st, hw))
      else if type = hwmon_pwm then
        (if attr = hwmon_pwm_enable then
           (0, Some (long_of_FAN_PWM_ENABLE (pwm_enable st)), st, hw)
         else if attr = hwmon_pwm_input then
           let (ret, st1, hw1) = gpd_read_pwm HZ st hw
           in if ret < 0 then (ret, None, st1, hw1) else (0, Some ret, st1, hw1)
         else (- EOPNOTSUPP, None, st, hw))
      else (- EOPNOTSUPP, None, st, hw))"

definition gpd_fan_hwmon_write ::
  "hwmon_sensor_types \<Rightarrow> 32 word \<Rightarrow> 64 word \<Rightarrow> gpd_driver_priv \<Rightarrow> ec_hw
     \<Rightarrow> int \<times> gpd_driver_priv \<times> ec_hw" where
  "gpd_fan_hwmon_write type attr val st hw =
     (if type = hwmon_pwm then
        (if attr = hwmon_pwm_enable then
           if \<not> in_range64 val 0 3 then (- EINVAL, st, hw)
           else
             let st1 = st\<lparr>pwm_enable := FAN_PWM_ENABLE_of_long val\<rparr>;
                 (ret, hw1) = gpd_set_pwm_enable (pwm_enable st1) st1 hw
             in (ret, st1, hw1)
         else if attr = hwmon_pwm_input then
           let var = (ucast (clamp_val val 0 255) :: u8);
               st1 = st\<lparr>pwm_value := var\<rparr>;
               (ret, hw1) = gpd_write_pwm var st1 hw
           in (ret, st1, hw1)
         else (- EOPNOTSUPP, st, hw))
      else (- EOPNOTSUPP, st, hw))"

section \<open>Start and teardown\<close>

text \<open>
  The state that \<open>gpd_fan_init\<close> stores once a board has matched, \<open>now\<close> being the tick
  counter at that moment; the matching itself (module parameter, DMI table) and the
  platform device are not modelled. \<open>gpd_fan_remove\<close> discards the status of the handler.
\<close>

definition gpd_fan_init :: "ulong \<Rightarrow> ulong \<Rightarrow> gpd_board_quirk \<Rightarrow> gpd_driver_priv" where
  "gpd_fan_init HZ now match =
     (let jiffies_latest = now - HZ
      in \<lparr> pwm_enable = AUTOMATIC, pwm_value = 255,
           fan_speed_cached = 0, read_pwm_cached = 0,
           fan_speed_last_update = jiffies_latest,
           read_pwm_last_update = jiffies_latest,
           quirk = match \<rparr>)"

definition gpd_fan_remove :: "gpd_driver_priv \<Rightarrow> ec_hw \<Rightarrow> int \<times> gpd_driver_priv \<times> ec_hw" where
  "gpd_fan_remove st hw =
     (let st1 = st\<lparr>pwm_enable := AUTOMATIC\<rparr>;
          (ret, hw1) = gpd_set_pwm_enable AUTOMATIC st1 hw
      in (0, st1, hw1))"

section \<open>A test double for the embedded controller\<close>

text \<open>
  An EC with the given register content and lock outcomes, at the given tick, with an
  empty port log; uninitialised locals read as 0. It is used where a theorem is run on a
  concrete input.
\<close>

definition fake_ec :: "(u16 \<Rightarrow> u8) \<Rightarrow> bool list \<Rightarrow> ulong \<Rightarrow> ec_hw" where
  "fake_ec mem outcomes now =
     \<lparr> ram = mem, trace = [], intr = outcomes, uninit = (\<lambda>_. 0), jiffies = now \<rparr>"

section \<open>Auxiliary facts\<close>

subsection \<open>Scaling of the duty cycle\<close>

lemma sdiv_nonneg: "0 \<le> (k::int) \<Longrightarrow> 0 \<le> l \<Longrightarrow> k sdiv l = k div l"
  by (simp add: signed_divide_int_def sgn_if)

lemma actual_uint:
  fixes val :: u8 and m :: u16
  assumes "1 \<le> uint m" "uint m \<le> 255"
  shows "uint (word_of_int (uint val * (uint m - 1) sdiv 255 + 1) :: u8)
         = uint val * (uint m - 1) div 255 + 1"
proof -
  have v: "0 \<le> uint val" "uint val \<le> 255"
    using uint_bounded [of val] by simp_all
  let ?p = "uint val * (uint m - 1)"
  have p0: "0 \<le> ?p" using v assms by simp
  have "?p \<le> 255 * 254"
    using mult_mono [of "uint val" 255 "uint m - 1" 254] v assms by simp
  then have "?p div 255 \<le> (255 * 254) div 255"
    by (rule zdiv_mono1) simp
  then have hi: "?p div 255 + 1 \<le> 255" by simp
  have lo: "0 \<le> ?p div 255" using p0 by (simp add: pos_imp_zdiv_nonneg_iff)
  have sd: "?p sdiv 255 = ?p div 255" using p0 by (simp add: sdiv_nonneg)
  define x where "x = ?p div 255 + 1"
  have "0 \<le> x" "x < 2 ^ 8" using lo hi by (simp_all add: x_def)
  then have "take_bit 8 x = x" by (rule take_bit_int_eq_self)
  then have "uint (word_of_int x :: u8) = x" by (simp add: uint_word_of_int_eq)
  with sd show ?thesis by (simp only: x_def)
qed

lemma lock_ok_fields:
  "ram (snd (mutex_lock_interruptible hw)) = ram hw"
  "trace (snd (mutex_lock_interruptible hw)) = trace hw"
  "uninit (snd (mutex_lock_interruptible hw)) = uninit hw"
  "jiffies (snd (mutex_lock_interruptible hw)) = jiffies hw"
  by (simp_all add: mutex_lock_interruptible_def split: list.split)

lemma ecram_write_acquired:
  assumes "fst (mutex_lock_interruptible hw) = 0"
  shows "fst (gpd_ecram_write q off v hw) = 0"
    and "ram (snd (gpd_ecram_write q off v hw)) = (ram hw)(off := v)"
  using assms
  by (simp_all add: gpd_ecram_write_def Let_def split_beta lock_ok_fields)

lemma module_quirks_pwm_max:
  "q \<in> set gpd_module_quirks \<Longrightarrow> 1 \<le> uint (pwm_max q) \<and> uint (pwm_max q) \<le> 255"
  by (auto simp: gpd_module_quirks_def gpd_win_mini_quirk_def gpd_win4_quirk_def gpd_wm2_quirk_def)

lemma written_uint:
  assumes "quirk st \<in> set gpd_module_quirks" "fst (mutex_lock_interruptible hw) = 0"
  shows "uint (ram (snd (gpd_generic_write_pwm val st hw)) (pwm_write (quirk st)))
         = uint val * (uint (pwm_max (quirk st)) - 1) div 255 + 1"
proof -
  have "ram (snd (gpd_generic_write_pwm val st hw)) (pwm_write (quirk st))
        = word_of_int (uint val * (uint (pwm_max (quirk st)) - 1) sdiv 255 + 1)"
    unfolding gpd_generic_write_pwm_def Let_def
    by (simp only: ecram_write_acquired(2) [OF assms(2)] fun_upd_same)
  moreover have "1 \<le> uint (pwm_max (quirk st))" "uint (pwm_max (quirk st)) \<le> 255"
    using module_quirks_pwm_max [OF assms(1)] by simp_all
  ultimately show ?thesis by (simp only: actual_uint)
qed

subsection \<open>The lock and single register accesses\<close>

lemma lock_fst:
  "fst (mutex_lock_interruptible hw) = (if intr hw \<noteq> [] \<and> hd (intr hw) then - EINTR else 0)"
  by (simp add: mutex_lock_interruptible_def split: list.split)

lemma lock_intr: "intr (snd (mutex_lock_interruptible hw)) = tl (intr hw)"
  by (simp add: mutex_lock_interruptible_def split: list.split)



lemma lock_quiet:
  "True \<notin> set (intr hw) \<Longrightarrow> fst (mutex_lock_interruptible hw) = 0"
  "True \<notin> set (intr hw) \<Longrightarrow> True \<notin> set (intr (snd (mutex_lock_interruptible hw)))"
  by (auto simp: mutex_lock_interruptible_def split: list.split)



lemma ecram_write_fst: "fst (gpd_ecram_write q off v hw) = fst (mutex_lock_interruptible hw)"
  by (simp add: gpd_ecram_write_def Let_def split_beta)

lemma ecram_read_fst: "fst (gpd_ecram_read q off v hw) = fst (mutex_lock_interruptible hw)"
  by (simp add: gpd_ecram_read_def Let_def split_beta)

lemma ecram_read_val:
  "fst (snd (gpd_ecram_read q off v hw)) =
     (if fst (mutex_lock_interruptible hw) \<noteq> 0 then v else ram hw off)"
  by (simp add: gpd_ecram_read_def Let_def split_beta lock_ok_fields)

lemma ecram_read_hw:
  "ram (snd (snd (gpd_ecram_read q off v hw))) = ram hw"
  "intr (snd (snd (gpd_ecram_read q off v hw))) = tl (intr hw)"
  "uninit (snd (snd (gpd_ecram_read q off v hw))) = uninit hw"
  "jiffies (snd (snd (gpd_ecram_read q off v hw))) = jiffies hw"
  by (simp_all add: gpd_ecram_read_def Let_def split_beta lock_ok_fields lock_intr)

lemma ecram_write_hw:
  "ram (snd (gpd_ecram_write q off v hw)) =
     (if fst (mutex_lock_interruptible hw) \<noteq> 0 then ram hw else (ram hw)(off := v))"
  "intr (snd (gpd_ecram_write q off v hw)) = tl (intr hw)"
  "uninit (snd (gpd_ecram_write q off v hw)) = uninit hw"
  "jiffies (snd (gpd_ecram_write q off v hw)) = jiffies hw"
  by (simp_all add: gpd_ecram_write_def Let_def split_beta lock_ok_fields lock_intr)

lemma ecram_write_trace:
  "fst (mutex_lock_interruptible hw) = 0 \<Longrightarrow>
     length (trace (snd (gpd_ecram_write q off v hw))) = length (trace hw) + 12"
  "fst (mutex_lock_interruptible hw) \<noteq> 0 \<Longrightarrow>
     trace (snd (gpd_ecram_write q off v hw)) = trace hw"
  by (simp_all add: gpd_ecram_write_def Let_def split_beta lock_ok_fields)

lemma ecram_read_trace:
  "fst (mutex_lock_interruptible hw) = 0 \<Longrightarrow>
     length (trace (snd (snd (gpd_ecram_read q off v hw)))) = length (trace hw) + 12"
  "fst (mutex_lock_interruptible hw) \<noteq> 0 \<Longrightarrow>
     trace (snd (snd (gpd_ecram_read q off v hw))) = trace hw"
  by (simp_all add: gpd_ecram_read_def Let_def split_beta lock_ok_fields)

subsection \<open>Mode and duty values\<close>

lemma in_range_mode: "in_range64 val 0 3 \<longleftrightarrow> val = 0 \<or> val = 1 \<or> val = 2"
proof -
  have e: "val = 0 \<longleftrightarrow> unat val = 0" "val = 1 \<longleftrightarrow> unat val = 1" "val = 2 \<longleftrightarrow> unat val = 2"
    by (simp_all add: word_unat_eq_iff)
  have "val < 3 \<longleftrightarrow> unat val < 3" by (simp add: word_less_nat_alt)
  also have "\<dots> \<longleftrightarrow> unat val = 0 \<or> unat val = 1 \<or> unat val = 2" by auto
  finally show ?thesis by (simp add: in_range64_def e)
qed

lemma set_pwm_enable_fst:
  "fst (gpd_set_pwm_enable e st hw) = 0 \<or> fst (gpd_set_pwm_enable e st hw) = - EINTR"
  by (cases e; cases "board (quirk st)")
     (simp_all add: gpd_set_pwm_enable_def gpd_win_mini_set_pwm_enable_def
        gpd_wm2_set_pwm_enable_def gpd_generic_write_pwm_def Let_def split_beta
        ecram_write_fst lock_fst)

lemma clamp_val_sint:
  "sint (clamp_val v 0 255) = (if sint v < 0 then 0 else if 255 < sint v then 255 else sint v)"
  by (auto simp: clamp_val_def word_sless_alt Let_def)

lemma duty_of_long:
  "uint (ucast (clamp_val v 0 255) :: u8) =
     (if sint v < 0 then 0 else if 255 < sint v then 255 else sint v)"
proof -
  define c where "c = sint (clamp_val v 0 255)"
  have c: "0 \<le> c" "c < 2 ^ 8" by (simp_all add: c_def clamp_val_sint)
  have "uint (ucast (clamp_val v 0 255) :: u8) = take_bit 8 (uint (clamp_val v 0 255))"
    by (simp add: unsigned_ucast_eq)
  also have "\<dots> = take_bit 8 (take_bit 64 c)"
    by (simp add: uint_sint c_def)
  also have "\<dots> = take_bit 8 c" by simp
  also have "\<dots> = c" using c by (rule take_bit_int_eq_self)
  finally show ?thesis by (simp add: c_def clamp_val_sint)
qed

subsection \<open>Reading the duty cycle back\<close>

lemma s16_cast_id: "- (2 ^ 15) \<le> x \<Longrightarrow> x < 2 ^ 15 \<Longrightarrow> s16_cast x = x"
  by (simp add: s16_cast_def sint_sbintrunc' signed_take_bit_int_eq_self)

lemma u8_le_255: "uint (x :: u8) \<le> 255"
  using uint_bounded [of x] by simp

lemma wm2_reported_range:
  fixes var :: u8
  shows "0 \<le> uint var * 255 div 184" "uint var * 255 div 184 \<le> 353"
proof -
  have v: "0 \<le> uint var" "uint var \<le> 255" by (simp_all add: u8_le_255)
  then show "0 \<le> uint var * 255 div 184" by (simp add: pos_imp_zdiv_nonneg_iff)
  have "uint var * 255 \<le> 255 * 255" using v by simp
  then have "uint var * 255 div 184 \<le> (255 * 255) div 184" by (rule zdiv_mono1) simp
  then show "uint var * 255 div 184 \<le> 353" by simp
qed

lemma wm2_read_pwm_value:
  assumes q: "quirk st = gpd_wm2_quirk" and lock: "fst (mutex_lock_interruptible hw) = 0"
  shows "fst (gpd_wm2_read_pwm_uncached st hw) = uint (ram hw 0x1809) * 255 div 184"
proof -
  let ?x = "uint (ram hw 0x1809) * 255"
  have p: "pwm_write (quirk st) = 0x1809" "uint (pwm_max (quirk st)) = 184"
    by (simp_all add: q gpd_wm2_quirk_def)
  have "0 \<le> ?x" by simp
  then have sd: "?x sdiv 184 = ?x div 184" by (simp add: sdiv_nonneg)
  have "s16_cast (?x div 184) = ?x div 184"
    using wm2_reported_range [of "ram hw 0x1809"] by (intro s16_cast_id) simp_all
  with sd lock show ?thesis
    by (simp add: gpd_wm2_read_pwm_uncached_def Let_def split_beta ecram_read_fst
        ecram_read_val p)
qed

subsection \<open>The two-byte fan speed\<close>

lemma rpm_word_value:
  fixes high low :: u8
  shows "sint (push_bit 8 (ucast high :: 32 word) OR ucast low) = uint high * 256 + uint low"
proof -
  define X Y where "X = uint high" and "Y = uint low"
  have b: "0 \<le> X" "X \<le> 255" "0 \<le> Y" "Y \<le> 255"
    by (simp_all add: X_def Y_def u8_le_255)
  have l: "take_bit 8 Y = Y"
    using b by (intro take_bit_int_eq_self) simp_all
  have "push_bit 8 X OR Y = concat_bit 8 Y X"
    by (simp add: concat_bit_def l or.commute)
  also have "\<dots> = Y + push_bit 8 X" by (simp add: concat_bit_eq l)
  finally have c: "push_bit 8 X OR Y = X * 256 + Y" by (simp add: push_bit_eq_mult)
  have t: "take_bit 32 X = X" "take_bit 32 Y = Y"
    using b by (simp_all add: take_bit_int_eq_self)
  have h32: "uint (ucast high :: 32 word) = X"
    using t by (simp add: unsigned_ucast_eq X_def)
  have l32: "uint (ucast low :: 32 word) = Y"
    using t by (simp add: unsigned_ucast_eq Y_def)
  have p: "take_bit LENGTH(32) (push_bit 8 X) = push_bit 8 X"
    using b by (intro take_bit_int_eq_self) (simp_all add: push_bit_eq_mult)
  have u: "uint (push_bit 8 (ucast high :: 32 word) OR ucast low) = X * 256 + Y"
    by (simp only: uint_or unsigned_push_bit_eq h32 l32 p c)
  have "sint (push_bit 8 (ucast high :: 32 word) OR ucast low)
        = signed_take_bit 31 (X * 256 + Y)"
    by (simp only: sint_uint u) simp
  also have "\<dots> = X * 256 + Y"
    using b by (intro signed_take_bit_int_eq_self) simp_all
  finally show ?thesis by (simp only: X_def Y_def)
qed

lemma quiet_tl: "True \<notin> set (intr hw) \<Longrightarrow> True \<notin> set (tl (intr hw))"
  by (cases "intr hw") simp_all

lemma ecram_read_quiet:
  assumes "True \<notin> set (intr hw)"
  shows "fst (gpd_ecram_read q off v hw) = 0"
    and "fst (snd (gpd_ecram_read q off v hw)) = ram hw off"
    and "True \<notin> set (intr (snd (snd (gpd_ecram_read q off v hw))))"
    and "length (trace (snd (snd (gpd_ecram_read q off v hw)))) = length (trace hw) + 12"
  using assms
  by (simp_all add: ecram_read_fst ecram_read_val ecram_read_hw ecram_read_trace lock_quiet quiet_tl)

lemma ecram_write_quiet:
  assumes "True \<notin> set (intr hw)"
  shows "fst (gpd_ecram_write q off v hw) = 0"
    and "ram (snd (gpd_ecram_write q off v hw)) = (ram hw)(off := v)"
    and "True \<notin> set (intr (snd (gpd_ecram_write q off v hw)))"
    and "length (trace (snd (gpd_ecram_write q off v hw))) = length (trace hw) + 12"
  using assms
  by (simp_all add: ecram_write_fst ecram_write_hw ecram_write_trace lock_quiet quiet_tl)

lemma generic_read_quiet:
  assumes "True \<notin> set (intr hw)"
  shows "fst (gpd_generic_read_rpm_uncached st hw)
         = uint (ram hw (rpm_read (quirk st))) * 256 + uint (ram hw (rpm_read (quirk st) + 1))"
    and "ram (snd (gpd_generic_read_rpm_uncached st hw)) = ram hw"
    and "True \<notin> set (intr (snd (gpd_generic_read_rpm_uncached st hw)))"
    and "length (trace (snd (gpd_generic_read_rpm_uncached st hw))) = length (trace hw) + 24"
proof -
  let ?q = "quirk st"
  let ?r1 = "gpd_ecram_read ?q (rpm_read ?q) (uninit hw (rpm_read ?q)) hw"
  let ?hw1 = "snd (snd ?r1)"
  let ?r2 = "gpd_ecram_read ?q (rpm_read ?q + 1) (uninit ?hw1 (rpm_read ?q + 1)) ?hw1"
  note a = ecram_read_quiet [OF assms, of ?q "rpm_read ?q" "uninit hw (rpm_read ?q)"]
  note b = ecram_read_quiet [OF a(3), of ?q "rpm_read ?q + 1" "uninit ?hw1 (rpm_read ?q + 1)"]
  have g: "gpd_generic_read_rpm_uncached st hw
           = (sint (push_bit 8 (ucast (fst (snd ?r1)) :: 32 word) OR ucast (fst (snd ?r2))),
              snd (snd ?r2))"
    using a(1) b(1) by (simp add: gpd_generic_read_rpm_uncached_def Let_def split_beta)
  have r: "ram ?hw1 = ram hw" by (simp add: ecram_read_hw)
  show "fst (gpd_generic_read_rpm_uncached st hw)
         = uint (ram hw (rpm_read ?q)) * 256 + uint (ram hw (rpm_read ?q + 1))"
    by (simp only: g fst_conv rpm_word_value a(2) b(2) r)
  show "ram (snd (gpd_generic_read_rpm_uncached st hw)) = ram hw"
    by (simp only: g snd_conv ecram_read_hw)
  show "True \<notin> set (intr (snd (gpd_generic_read_rpm_uncached st hw)))"
    unfolding g snd_conv by (rule b(3))
  show "length (trace (snd (gpd_generic_read_rpm_uncached st hw))) = length (trace hw) + 24"
    unfolding g snd_conv using a(4) b(4) by simp
qed


lemma win4_read_fst:
  "fst (gpd_win4_read_rpm_uncached st hw) =
     fst (gpd_generic_read_rpm_uncached st
       (if fst (snd (gpd_ecram_read (quirk st) 0x1841 (uninit hw 0x1841) hw)) \<noteq> 0x7F
        then snd (gpd_ecram_write (quirk st) 0x1841 0x7F
                    (snd (snd (gpd_ecram_read (quirk st) 0x1841 (uninit hw 0x1841) hw))))
        else snd (snd (gpd_ecram_read (quirk st) 0x1841 (uninit hw 0x1841) hw))))"
  by (simp add: gpd_win4_read_rpm_uncached_def Let_def split_beta)

subsection \<open>The fixup loop of win-max-2\<close>

lemma set_tl_subset: "set (tl xs) \<subseteq> set xs"
  by (cases xs) auto

lemma pwm_ctr_loop_frame:
  "set (intr (gpd_wm2_pwm_ctr_loop q off hw)) \<subseteq> set (intr hw)
   \<and> length (trace hw) \<le> length (trace (gpd_wm2_pwm_ctr_loop q off hw))
   \<and> (\<forall>a. a < 0x1841 \<and> 0x1841 \<le> off \<longrightarrow> ram (gpd_wm2_pwm_ctr_loop q off hw) a = ram hw a)"
proof (induction q off hw rule: gpd_wm2_pwm_ctr_loop.induct)
  case (1 q off hw)
  show ?case
  proof (cases "off \<le> 0x1843")
    case False
    then show ?thesis by (subst (1 2 3) gpd_wm2_pwm_ctr_loop.simps) simp
  next
    case True
    define rd where "rd = gpd_ecram_read q off (uninit hw off) hw"
    define hw2 where "hw2 = (if fst (snd rd) \<noteq> 0xB8
                              then snd (gpd_ecram_write q off 0xB8 (snd (snd rd)))
                              else snd (snd rd))"
    have step: "gpd_wm2_pwm_ctr_loop q off hw = gpd_wm2_pwm_ctr_loop q (off + 1) hw2"
      using True
      by (subst gpd_wm2_pwm_ctr_loop.simps) (simp add: Let_def split_beta rd_def hw2_def)
    have ih: "set (intr (gpd_wm2_pwm_ctr_loop q (off + 1) hw2)) \<subseteq> set (intr hw2)
        \<and> length (trace hw2) \<le> length (trace (gpd_wm2_pwm_ctr_loop q (off + 1) hw2))
        \<and> (\<forall>a. a < 0x1841 \<and> 0x1841 \<le> off + 1 \<longrightarrow>
              ram (gpd_wm2_pwm_ctr_loop q (off + 1) hw2) a = ram hw2 a)"
      using "1.IH" [OF True refl, of "fst rd" "snd rd" "fst (snd rd)" "snd (snd rd)" hw2]
      by (simp add: rd_def hw2_def)
    have i2: "set (intr hw2) \<subseteq> set (intr hw)"
      using set_tl_subset [of "intr hw"] set_tl_subset [of "tl (intr hw)"]
      by (auto simp: hw2_def rd_def ecram_read_hw ecram_write_hw)
    have t1: "length (trace hw) \<le> length (trace (snd (snd rd)))"
      by (cases "fst (mutex_lock_interruptible hw) = 0")
         (simp_all add: rd_def ecram_read_trace)
    have t2: "length (trace (snd (snd rd))) \<le> length (trace hw2)"
      by (cases "fst (mutex_lock_interruptible (snd (snd rd))) = 0")
         (simp_all add: hw2_def ecram_write_trace)
    have r2: "ram hw2 a = ram hw a" if "a < 0x1841" "0x1841 \<le> off" for a
    proof -
      from that have "a \<noteq> off" by auto
      then show ?thesis by (simp add: hw2_def rd_def ecram_read_hw ecram_write_hw)
    qed
    have nx: "0x1841 \<le> off \<Longrightarrow> 0x1841 \<le> off + 1"
    proof -
      assume lo: "0x1841 \<le> off"
      from True have n: "unat off \<le> 0x1843" by (simp add: word_le_nat_alt)
      then have "unat off + unat (1 :: u16) < 2 ^ LENGTH(16)" by simp
      then have "unat (off + 1) = unat off + unat (1 :: u16)" by (simp only: unat_add_lem)
      with lo show ?thesis by (simp add: word_le_nat_alt)
    qed
    show ?thesis
      unfolding step using ih i2 t1 t2 r2 nx by auto
  qed
qed

subsection \<open>Interrupted sequences\<close>








subsection \<open>Tick arithmetic\<close>

lemma sint_small:
  fixes w :: ulong
  assumes "uint w < 2 ^ 63"
  shows "sint w = uint w"
proof -
  have "- (2 ^ 63) \<le> (0 :: int)" by simp
  also have "0 \<le> uint w" by simp
  finally have "signed_take_bit 63 (uint w) = uint w"
    using assms by (intro signed_take_bit_int_eq_self)
  then show ?thesis by (simp add: sint_uint)
qed

lemma uint_less_of_unat:
  fixes w :: ulong
  assumes "unat w < 2 ^ 63"
  shows "uint w < 2 ^ 63"
proof -
  have "uint w = int (unat w)" by (rule uint_nat)
  also have "\<dots> < int (2 ^ 63)" using assms by (simp only: of_nat_less_iff)
  finally show ?thesis by simp
qed

lemma time_after_no_wrap:
  fixes now last HZ :: ulong
  assumes a: "unat last + unat HZ < 2 ^ 63" and n: "unat now < 2 ^ 63"
  shows "time_after now (last + HZ) \<longleftrightarrow> unat last + unat HZ < unat now"
proof -
  define b where "b = last + HZ"
  have "unat last + unat HZ < 2 ^ LENGTH(64)" using a by simp
  then have ub: "unat b = unat last + unat HZ" unfolding b_def by (simp only: unat_add_lem)
  have nb: "unat b < 2 ^ 63" using a ub by simp
  have bb: "uint b < 2 ^ 63" "uint now < 2 ^ 63"
    by (rule uint_less_of_unat [OF nb], rule uint_less_of_unat [OF n])
  define x y where "x = uint b" and "y = uint now"
  have xy: "0 \<le> x" "x < 9223372036854775808" "0 \<le> y" "y < 9223372036854775808"
    using bb by (simp_all add: x_def y_def)
  have sb: "sint b = x" unfolding x_def using bb(1) by (rule sint_small)
  have sn: "sint now = y" unfolding y_def using bb(2) by (rule sint_small)
  have "sint (b - now) = signed_take_bit 63 (x - y)"
    by (simp add: sint_word_ariths sb sn)
  also have "\<dots> = x - y"
  proof (rule signed_take_bit_int_eq_self)
    show "- (2 ^ 63) \<le> x - y" using xy by simp
    show "x - y < 2 ^ 63" using xy by simp
  qed
  finally have "time_after now b \<longleftrightarrow> x < y"
    unfolding time_after_def by simp
  also have "\<dots> \<longleftrightarrow> unat b < unat now" by (simp add: x_def y_def word_less_nat_alt [symmetric] word_less_def)
  finally show ?thesis by (simp only: b_def ub [unfolded b_def])
qed

subsection \<open>The port log of a refresh\<close>

lemma ecram_trace_mono:
  "length (trace hw) \<le> length (trace (snd (snd (gpd_ecram_read q off v hw))))"
  "length (trace hw) \<le> length (trace (snd (gpd_ecram_write q off w hw)))"
  by (cases "fst (mutex_lock_interruptible hw) = 0"; simp add: ecram_read_trace ecram_write_trace)+

lemma win4_trace_mono:
  "length (trace (snd (gpd_generic_read_rpm_uncached st
       (if fst (snd (gpd_ecram_read (quirk st) 0x1841 (uninit hw 0x1841) hw)) \<noteq> 0x7F
        then snd (gpd_ecram_write (quirk st) 0x1841 0x7F
                    (snd (snd (gpd_ecram_read (quirk st) 0x1841 (uninit hw 0x1841) hw))))
        else snd (snd (gpd_ecram_read (quirk st) 0x1841 (uninit hw 0x1841) hw))))))
   \<le> length (trace (snd (gpd_win4_read_rpm_uncached st hw)))"
proof -
  let ?q = "quirk st"
  let ?r = "gpd_ecram_read ?q 0x1841 (uninit hw 0x1841) hw"
  let ?hw2 = "if fst (snd ?r) \<noteq> 0x7F
              then snd (gpd_ecram_write ?q 0x1841 0x7F (snd (snd ?r))) else snd (snd ?r)"
  let ?hw3 = "snd (gpd_generic_read_rpm_uncached st ?hw2)"
  let ?r4 = "gpd_ecram_read ?q 0x2000 (uninit ?hw3 0x2000) ?hw3"
  let ?hw4 = "snd (snd ?r4)"
  let ?r5 = "gpd_ecram_read ?q 0x1060 (uninit ?hw4 0x1060) ?hw4"
  let ?hw5 = "snd (snd ?r5)"
  let ?hw6 = "snd (gpd_ecram_write ?q 0x1060 (fst (snd ?r5) OR 0x80) ?hw5)"
  have m4: "length (trace ?hw3) \<le> length (trace ?hw4)" by (rule ecram_trace_mono)
  have m5: "length (trace ?hw4) \<le> length (trace ?hw5)" by (rule ecram_trace_mono)
  have m6: "length (trace ?hw5) \<le> length (trace ?hw6)" by (rule ecram_trace_mono)
  have "snd (gpd_win4_read_rpm_uncached st hw) \<in> {?hw3, ?hw4, ?hw5, ?hw6}"
    by (simp add: gpd_win4_read_rpm_uncached_def Let_def split_beta)
  then consider "snd (gpd_win4_read_rpm_uncached st hw) = ?hw3"
    | "snd (gpd_win4_read_rpm_uncached st hw) = ?hw4"
    | "snd (gpd_win4_read_rpm_uncached st hw) = ?hw5"
    | "snd (gpd_win4_read_rpm_uncached st hw) = ?hw6"
    by blast
  then show ?thesis
  proof cases
    case 1 then show ?thesis by simp
  next
    case 2 with m4 show ?thesis by simp
  next
    case 3 with m4 m5 show ?thesis by simp
  next
    case 4 with m4 m5 m6 show ?thesis by simp
  qed
qed

lemma rpm_u16_round:
  fixes h l :: u8
  shows "uint (word_of_int (uint h * 256 + uint l) :: u16) = uint h * 256 + uint l"
proof -
  have "0 \<le> uint h * 256 + uint l" by simp
  moreover have "uint h * 256 + uint l < 2 ^ 16"
    using u8_le_255 [of h] u8_le_255 [of l] by simp
  ultimately have "take_bit 16 (uint h * 256 + uint l) = uint h * 256 + uint l"
    by (rule take_bit_int_eq_self)
  then show ?thesis by (simp only: uint_word_of_int_eq) simp
qed

lemma read_rpm_uncached_quiet:
  assumes q: "quirk st \<in> set gpd_module_quirks" and quiet: "True \<notin> set (intr hw)"
  shows "fst (case board (quirk st) of
                 win_mini \<Rightarrow> gpd_generic_read_rpm_uncached st hw
               | win4_6800u \<Rightarrow> gpd_win4_read_rpm_uncached st hw
               | win_max_2 \<Rightarrow> gpd_wm2_read_rpm_uncached st hw)
         = uint (ram hw (rpm_read (quirk st))) * 256 + uint (ram hw (rpm_read (quirk st) + 1))
       \<and> length (trace hw) + 24
         \<le> length (trace (snd (case board (quirk st) of
                 win_mini \<Rightarrow> gpd_generic_read_rpm_uncached st hw
               | win4_6800u \<Rightarrow> gpd_win4_read_rpm_uncached st hw
               | win_max_2 \<Rightarrow> gpd_wm2_read_rpm_uncached st hw)))"
proof -
  from q consider "quirk st = gpd_win_mini_quirk" | "quirk st = gpd_win4_quirk"
    | "quirk st = gpd_wm2_quirk"
    by (auto simp: gpd_module_quirks_def)
  then show ?thesis
  proof cases
    case 1
    then have "board (quirk st) = win_mini" by (simp add: gpd_win_mini_quirk_def)
    then show ?thesis using generic_read_quiet [OF quiet, of st] by simp
  next
    case 2
    then have b: "board (quirk st) = win4_6800u" "rpm_read (quirk st) = 0xC880"
      by (simp_all add: gpd_win4_quirk_def)
    let ?r = "gpd_ecram_read (quirk st) 0x1841 (uninit hw 0x1841) hw"
    let ?hw2 = "if fst (snd ?r) \<noteq> 0x7F
                then snd (gpd_ecram_write (quirk st) 0x1841 0x7F (snd (snd ?r)))
                else snd (snd ?r)"
    note r1 = ecram_read_quiet [OF quiet, of "quirk st" "0x1841" "uninit hw 0x1841"]
    note w1 = ecram_write_quiet [OF r1(3), of "quirk st" "0x1841" "0x7F"]
    have h: "True \<notin> set (intr ?hw2)" using r1(3) w1(3) by simp
    have m: "ram ?hw2 0xC880 = ram hw 0xC880" "ram ?hw2 0xC881 = ram hw 0xC881"
      by (simp_all add: w1(2) ecram_read_hw)
    have t: "length (trace hw) \<le> length (trace ?hw2)"
      using r1(4) w1(4) by simp
    note g = generic_read_quiet [OF h, of st]
    have "fst (gpd_win4_read_rpm_uncached st hw) = fst (gpd_generic_read_rpm_uncached st ?hw2)"
      by (rule win4_read_fst)
    also have "\<dots> = uint (ram ?hw2 0xC880) * 256 + uint (ram ?hw2 0xC881)"
      unfolding g(1) b by simp
    finally have "fst (gpd_win4_read_rpm_uncached st hw)
        = uint (ram hw 0xC880) * 256 + uint (ram hw 0xC881)"
      by (simp only: m)
    moreover have "length (trace hw) + 24 \<le> length (trace (snd (gpd_win4_read_rpm_uncached st hw)))"
      using win4_trace_mono [of st hw] g(4) t by linarith
    ultimately show ?thesis by (simp add: b)
  next
    case 3
    then have b: "board (quirk st) = win_max_2" "rpm_read (quirk st) = 0x0218"
      by (simp_all add: gpd_wm2_quirk_def)
    let ?hw1 = "gpd_wm2_pwm_ctr_loop (quirk st) 0x1841 hw"
    from pwm_ctr_loop_frame [of "quirk st" "0x1841" hw] quiet
    have h: "True \<notin> set (intr ?hw1)" and t: "length (trace hw) \<le> length (trace ?hw1)"
      and m: "ram ?hw1 0x0218 = ram hw 0x0218" "ram ?hw1 0x0219 = ram hw 0x0219"
      by auto
    note g = generic_read_quiet [OF h, of st]
    have "gpd_wm2_read_rpm_uncached st hw = gpd_generic_read_rpm_uncached st ?hw1"
      by (simp only: gpd_wm2_read_rpm_uncached_def Let_def)
    with g t m show ?thesis by (simp add: b)
  qed
qed

lemma wm2_read_pwm_hw:
  "snd (gpd_wm2_read_pwm_uncached st hw)
   = snd (snd (gpd_ecram_read (quirk st) (pwm_write (quirk st))
                 (uninit hw (pwm_write (quirk st))) hw))"
  by (simp add: gpd_wm2_read_pwm_uncached_def Let_def split_beta)

lemma read_rpm_failure_keeps_state:
  "fst (gpd_read_rpm HZ st hw) < 0 \<Longrightarrow> fst (snd (gpd_read_rpm HZ st hw)) = st"
  by (simp add: gpd_read_rpm_def Let_def split_beta split: if_splits)

lemma read_pwm_failure_keeps_state:
  "fst (gpd_read_pwm HZ st hw) < 0 \<Longrightarrow> fst (snd (gpd_read_pwm HZ st hw)) = st"
  by (cases "board (quirk st)")
     (simp_all add: gpd_read_pwm_def Let_def split_beta split: if_splits)

subsection \<open>Fixup accesses with any lock outcome\<close>

lemma generic_read_fst:
  "fst (gpd_generic_read_rpm_uncached st hw) =
     (if intr hw \<noteq> [] \<and> hd (intr hw) then - EINTR
      else if tl (intr hw) \<noteq> [] \<and> hd (tl (intr hw)) then - EINTR
      else uint (ram hw (rpm_read (quirk st))) * 256
           + uint (ram hw (rpm_read (quirk st) + 1)))"
  by (simp add: gpd_generic_read_rpm_uncached_def Let_def split_beta ecram_read_fst
      ecram_read_val ecram_read_hw lock_fst rpm_word_value EINTR_def)








subsection \<open>Range of the fan speed\<close>

lemma u16_round: "0 \<le> x \<Longrightarrow> x \<le> 65535 \<Longrightarrow> uint (word_of_int x :: u16) = x"
proof -
  assume "0 \<le> x" "x \<le> 65535"
  then have "take_bit 16 x = x" by (intro take_bit_int_eq_self) simp_all
  then show ?thesis by (simp add: uint_word_of_int_eq)
qed

lemma generic_read_range: "fst (gpd_generic_read_rpm_uncached st hw) \<le> 65535"
proof -
  have "uint (ram hw (rpm_read (quirk st))) * 256 + uint (ram hw (rpm_read (quirk st) + 1))
        \<le> 65535"
    using u8_le_255 [of "ram hw (rpm_read (quirk st))"]
          u8_le_255 [of "ram hw (rpm_read (quirk st) + 1)"]
    by simp
  then show ?thesis by (simp add: generic_read_fst EINTR_def)
qed

lemma read_rpm_uncached_range:
  "fst (case board (quirk st) of
                win_mini \<Rightarrow> gpd_generic_read_rpm_uncached st hw
              | win4_6800u \<Rightarrow> gpd_win4_read_rpm_uncached st hw
              | win_max_2 \<Rightarrow> gpd_wm2_read_rpm_uncached st hw) \<le> 65535"
  by (cases "board (quirk st)")
     (simp_all add: generic_read_range win4_read_fst gpd_wm2_read_rpm_uncached_def Let_def)

section \<open>The claims\<close>

subsection \<open>C1\<close>

text \<open>
  C1. The claim is that on win4, after an RPM read of 0, the chip version read from 0x1060,
  if that read succeeds, is written back with bit 0x80 set. The source tests the status the
  other way round: \<open>if (gpd_ecram_read(quirk, 0x1060, &chip_ver))\<close> is true when the read
  has failed. Run on an EC whose RPM registers hold 0, whose chip identifier is 0x55 and
  whose chip version is 1, with no lock wait interrupted: 0 is returned, five registers are
  read (sixty port instructions, the last one an \<open>inb\<close>), and 0x1060 still holds 1: nothing
  was written back. With the lock wait of the read of 0x1060 interrupted, 0 is returned as
  well, and 0x1060 now holds 0x80: the write took place after the failed read, with the
  content of the uninitialised \<open>chip_ver\<close>.
\<close>

theorem gpd_win4_reinit_write_condition_inverted:
  "fst (gpd_win4_read_rpm_uncached (gpd_fan_init 250 0 gpd_win4_quirk)
          (fake_ec ((\<lambda>_. 0)(0x1841 := 0x7F, 0x2000 := 0x55, 0x1060 := 1)) [] 0)) = 0
   \<and> ram (snd (gpd_win4_read_rpm_uncached (gpd_fan_init 250 0 gpd_win4_quirk)
          (fake_ec ((\<lambda>_. 0)(0x1841 := 0x7F, 0x2000 := 0x55, 0x1060 := 1)) [] 0))) 0x1060 = 1
   \<and> length (trace (snd (gpd_win4_read_rpm_uncached (gpd_fan_init 250 0 gpd_win4_quirk)
          (fake_ec ((\<lambda>_. 0)(0x1841 := 0x7F, 0x2000 := 0x55, 0x1060 := 1)) [] 0)))) = 60
   \<and> last (trace (snd (gpd_win4_read_rpm_uncached (gpd_fan_init 250 0 gpd_win4_quirk)
          (fake_ec ((\<lambda>_. 0)(0x1841 := 0x7F, 0x2000 := 0x55, 0x1060 := 1)) [] 0)))) = Inb 0x2F
   \<and> fst (gpd_win4_read_rpm_uncached (gpd_fan_init 250 0 gpd_win4_quirk)
          (fake_ec ((\<lambda>_. 0)(0x1841 := 0x7F, 0x2000 := 0x55, 0x1060 := 1))
             [False, False, False, False, True] 0)) = 0
   \<and> ram (snd (gpd_win4_read_rpm_uncached (gpd_fan_init 250 0 gpd_win4_quirk)
          (fake_ec ((\<lambda>_. 0)(0x1841 := 0x7F, 0x2000 := 0x55, 0x1060 := 1))
             [False, False, False, False, True] 0))) 0x1060 = 0x80"
  by (simp add: gpd_win4_read_rpm_uncached_def gpd_generic_read_rpm_uncached_def
  gpd_ecram_read_def gpd_ecram_write_def mutex_lock_interruptible_def fake_ec_def
  gpd_fan_init_def gpd_win4_quirk_def Let_def EINTR_def)

subsection \<open>C2\<close>




subsection \<open>C3\<close>

text \<open>
  C3 (as amended). For each of the three board profiles and every duty value \<open>val\<close>, when
  the lock is acquired \<open>gpd_generic_write_pwm\<close> succeeds and the byte it stores in the PWM
  register is \<open>val * (pwm_max - 1) / 255 + 1\<close>, truncated; \<open>val = 0\<close> gives 1, \<open>val = 255\<close>
  gives \<open>pwm_max\<close>, and the mapping is monotonic: a larger duty never gives a smaller raw
  value. It is not strictly monotonic.
\<close>

theorem gpd_generic_write_pwm_scaling:
  assumes q: "quirk st \<in> set gpd_module_quirks"
    and lock: "fst (mutex_lock_interruptible hw) = 0"
  shows "fst (gpd_generic_write_pwm val st hw) = 0
       \<and> uint (ram (snd (gpd_generic_write_pwm val st hw)) (pwm_write (quirk st)))
           = uint val * (uint (pwm_max (quirk st)) - 1) div 255 + 1
       \<and> ram (snd (gpd_generic_write_pwm 0 st hw)) (pwm_write (quirk st)) = 1
       \<and> ucast (ram (snd (gpd_generic_write_pwm 255 st hw)) (pwm_write (quirk st)))
           = pwm_max (quirk st)
       \<and> (\<forall>val'. val \<le> val' \<longrightarrow>
             ram (snd (gpd_generic_write_pwm val st hw)) (pwm_write (quirk st))
             \<le> ram (snd (gpd_generic_write_pwm val' st hw)) (pwm_write (quirk st)))"
proof (intro conjI allI impI)
  show "fst (gpd_generic_write_pwm val st hw) = 0"
    using lock by (simp add: gpd_generic_write_pwm_def Let_def ecram_write_acquired)
  show "uint (ram (snd (gpd_generic_write_pwm val st hw)) (pwm_write (quirk st)))
           = uint val * (uint (pwm_max (quirk st)) - 1) div 255 + 1"
    by (rule written_uint [OF q lock])
  have "uint (ram (snd (gpd_generic_write_pwm 0 st hw)) (pwm_write (quirk st))) = uint (1 :: u8)"
    by (simp add: written_uint [OF q lock])
  then show "ram (snd (gpd_generic_write_pwm 0 st hw)) (pwm_write (quirk st)) = 1"
    by (simp only: word_uint_eq_iff)
  have m: "1 \<le> uint (pwm_max (quirk st))" using module_quirks_pwm_max [OF q] by simp
  have "uint (ram (snd (gpd_generic_write_pwm 255 st hw)) (pwm_write (quirk st)))
        = uint (pwm_max (quirk st))"
    by (simp add: written_uint [OF q lock])
  then have "uint (ucast (ram (snd (gpd_generic_write_pwm 255 st hw)) (pwm_write (quirk st))) :: u16)
        = uint (pwm_max (quirk st))"
    by (simp add: uint_up_ucast is_up)
  then show "ucast (ram (snd (gpd_generic_write_pwm 255 st hw)) (pwm_write (quirk st)))
           = pwm_max (quirk st)"
    by (simp only: word_uint_eq_iff)
next
  fix val' :: u8
  assume "val \<le> val'"
  then have le: "uint val \<le> uint val'" by (simp add: word_le_def)
  have m: "0 \<le> uint (pwm_max (quirk st)) - 1" using module_quirks_pwm_max [OF q] by simp
  have "uint val * (uint (pwm_max (quirk st)) - 1) \<le> uint val' * (uint (pwm_max (quirk st)) - 1)"
    using le m by (rule mult_right_mono)
  then have "uint val * (uint (pwm_max (quirk st)) - 1) div 255
       \<le> uint val' * (uint (pwm_max (quirk st)) - 1) div 255"
    by (rule zdiv_mono1) simp
  then show "ram (snd (gpd_generic_write_pwm val st hw)) (pwm_write (quirk st))
             \<le> ram (snd (gpd_generic_write_pwm val' st hw)) (pwm_write (quirk st))"
    by (simp add: word_le_def written_uint [OF q lock])
qed

theorem gpd_generic_write_pwm_scaling_witness:
  "fst (gpd_generic_write_pwm 128 (gpd_fan_init 250 0 gpd_wm2_quirk) (fake_ec (\<lambda>_. 0) [] 0)) = 0
   \<and> ram (snd (gpd_generic_write_pwm 128 (gpd_fan_init 250 0 gpd_wm2_quirk) (fake_ec (\<lambda>_. 0) [] 0))) 0x1809 = 92
   \<and> ram (snd (gpd_generic_write_pwm 255 (gpd_fan_init 250 0 gpd_wm2_quirk) (fake_ec (\<lambda>_. 0) [] 0))) 0x1809 = 184"
proof -
  let ?st = "gpd_fan_init 250 0 gpd_wm2_quirk" and ?hw = "fake_ec (\<lambda>_. 0) [] 0"
  have q: "quirk ?st \<in> set gpd_module_quirks"
    by (simp add: gpd_fan_init_def gpd_module_quirks_def)
  have lock: "fst (mutex_lock_interruptible ?hw) = 0"
    by (simp add: mutex_lock_interruptible_def fake_ec_def)
  have pw: "pwm_write (quirk ?st) = 0x1809" "pwm_max (quirk ?st) = 184"
    by (simp_all add: gpd_fan_init_def gpd_wm2_quirk_def)
  from gpd_generic_write_pwm_scaling [OF q lock, of 128]
  have a: "fst (gpd_generic_write_pwm 128 ?st ?hw) = 0"
    and b: "uint (ram (snd (gpd_generic_write_pwm 128 ?st ?hw)) 0x1809) = uint (92 :: u8)"
    and c: "ucast (ram (snd (gpd_generic_write_pwm 255 ?st ?hw)) 0x1809) = (184 :: u16)"
    by (simp_all add: pw)
  from b have b': "ram (snd (gpd_generic_write_pwm 128 ?st ?hw)) 0x1809 = 92"
    by (simp only: word_uint_eq_iff)
  have "uint (ucast (ram (snd (gpd_generic_write_pwm 255 ?st ?hw)) 0x1809) :: u16) = uint (184 :: u8)"
    using c by simp
  then have "uint (ram (snd (gpd_generic_write_pwm 255 ?st ?hw)) 0x1809) = uint (184 :: u8)"
    by (simp add: uint_up_ucast is_up)
  then have c': "ram (snd (gpd_generic_write_pwm 255 ?st ?hw)) 0x1809 = 184"
    by (simp only: word_uint_eq_iff)
  from a b' c' show ?thesis by simp
qed

text \<open>
  C3 as stated fails: on win-mini the duties 0 and 1 are both written as raw value 1, so the
  mapping is not strictly monotonic (256 duties share at most \<open>pwm_max\<close> raw values).
\<close>

theorem gpd_generic_write_pwm_not_strict:
  "(0 :: u8) < 1 \<and>
   \<not> ram (snd (gpd_generic_write_pwm 0 (gpd_fan_init 250 0 gpd_win_mini_quirk) (fake_ec (\<lambda>_. 0) [] 0))) 0x047A
     < ram (snd (gpd_generic_write_pwm 1 (gpd_fan_init 250 0 gpd_win_mini_quirk) (fake_ec (\<lambda>_. 0) [] 0))) 0x047A"
  by (simp add: gpd_generic_write_pwm_def gpd_ecram_write_def mutex_lock_interruptible_def
      fake_ec_def gpd_fan_init_def gpd_win_mini_quirk_def Let_def)

subsection \<open>C4\<close>

text \<open>
  C4 (as amended). The cached reads (\<open>gpd_read_rpm\<close> on every board, \<open>gpd_read_pwm\<close> on
  win-max-2) go to the hardware exactly when \<open>time_after(jiffies, last_update + HZ)\<close>
  holds, which, as long as the tick counter does not wrap, means that strictly more than
  \<open>HZ\<close> ticks have passed since the last refresh. When it does not hold, the cached value
  is returned and neither the driver state nor the hardware changes. When it holds, the
  board's uncached read is run. Whenever that read succeeds, with or without interrupted
  lock waits on the way (the fixups of win4 and win-max-2 ignore them), its value is stored
  in the cache field, the timestamp is set to the tick counter and the cache field is
  returned; whenever it fails, its error is returned and the driver state is left as it
  was. With no lock wait interrupted the read does succeed: the value is the one the
  registers hold and the port log grows.
\<close>

theorem gpd_cached_read_refresh:
  "(\<not> time_after (jiffies hw) (fan_speed_last_update st + HZ) \<longrightarrow>
      gpd_read_rpm HZ st hw = (uint (fan_speed_cached st), st, hw))
 \<and> (time_after (jiffies hw) (fan_speed_last_update st + HZ)
      \<and> quirk st \<in> set gpd_module_quirks \<and> True \<notin> set (intr hw) \<longrightarrow>
      fst (gpd_read_rpm HZ st hw)
        = uint (ram hw (rpm_read (quirk st))) * 256 + uint (ram hw (rpm_read (quirk st) + 1))
    \<and> uint (fan_speed_cached (fst (snd (gpd_read_rpm HZ st hw)))) = fst (gpd_read_rpm HZ st hw)
    \<and> fan_speed_last_update (fst (snd (gpd_read_rpm HZ st hw)))
        = jiffies (snd (snd (gpd_read_rpm HZ st hw)))
    \<and> length (trace hw) + 24 \<le> length (trace (snd (snd (gpd_read_rpm HZ st hw)))))
 \<and> (fst (gpd_read_rpm HZ st hw) < 0 \<longrightarrow> fst (snd (gpd_read_rpm HZ st hw)) = st)
 \<and> (board (quirk st) = win_max_2
      \<and> \<not> time_after (jiffies hw) (read_pwm_last_update st + HZ) \<longrightarrow>
      gpd_read_pwm HZ st hw = (uint (read_pwm_cached st), st, hw))
 \<and> (quirk st = gpd_wm2_quirk \<and> time_after (jiffies hw) (read_pwm_last_update st + HZ)
      \<and> True \<notin> set (intr hw) \<longrightarrow>
      read_pwm_cached (fst (snd (gpd_read_pwm HZ st hw)))
        = word_of_int (uint (ram hw 0x1809) * 255 div 184)
    \<and> fst (gpd_read_pwm HZ st hw) = uint (read_pwm_cached (fst (snd (gpd_read_pwm HZ st hw))))
    \<and> read_pwm_last_update (fst (snd (gpd_read_pwm HZ st hw)))
        = jiffies (snd (snd (gpd_read_pwm HZ st hw)))
    \<and> length (trace (snd (snd (gpd_read_pwm HZ st hw)))) = length (trace hw) + 12)
 \<and> (fst (gpd_read_pwm HZ st hw) < 0 \<longrightarrow> fst (snd (gpd_read_pwm HZ st hw)) = st)
 \<and> (unat t0 + unat HZ < 2 ^ 63 \<and> unat t1 < 2 ^ 63 \<longrightarrow>
      (time_after t1 (t0 + HZ) \<longleftrightarrow> unat t0 + unat HZ < unat t1))
 \<and> (time_after (jiffies hw) (fan_speed_last_update st + HZ)
      \<and> 0 \<le> fst (gpd_read_rpm HZ st hw) \<longrightarrow>
      (let r = (case board (quirk st) of
                win_mini \<Rightarrow> gpd_generic_read_rpm_uncached st hw
              | win4_6800u \<Rightarrow> gpd_win4_read_rpm_uncached st hw
              | win_max_2 \<Rightarrow> gpd_wm2_read_rpm_uncached st hw)
       in gpd_read_rpm HZ st hw =
            (fst r,
             st\<lparr>fan_speed_cached := word_of_int (fst r),
                fan_speed_last_update := jiffies (snd r)\<rparr>,
             snd r))
    \<and> uint (fan_speed_cached (fst (snd (gpd_read_rpm HZ st hw)))) = fst (gpd_read_rpm HZ st hw)
    \<and> fan_speed_last_update (fst (snd (gpd_read_rpm HZ st hw)))
        = jiffies (snd (snd (gpd_read_rpm HZ st hw))))
 \<and> (time_after (jiffies hw) (fan_speed_last_update st + HZ)
      \<and> fst (gpd_read_rpm HZ st hw) < 0 \<longrightarrow>
      (let r = (case board (quirk st) of
                win_mini \<Rightarrow> gpd_generic_read_rpm_uncached st hw
              | win4_6800u \<Rightarrow> gpd_win4_read_rpm_uncached st hw
              | win_max_2 \<Rightarrow> gpd_wm2_read_rpm_uncached st hw)
       in gpd_read_rpm HZ st hw = (fst r, st, snd r)))
 \<and> (board (quirk st) = win_max_2 \<and> time_after (jiffies hw) (read_pwm_last_update st + HZ)
      \<and> 0 \<le> fst (gpd_read_pwm HZ st hw) \<longrightarrow>
      (let u = gpd_wm2_read_pwm_uncached st hw
       in 0 \<le> fst u
        \<and> gpd_read_pwm HZ st hw =
            (uint (word_of_int (fst u) :: u8),
             st\<lparr>read_pwm_cached := word_of_int (fst u),
                read_pwm_last_update := jiffies (snd u)\<rparr>,
             snd u)))
 \<and> (board (quirk st) = win_max_2 \<and> time_after (jiffies hw) (read_pwm_last_update st + HZ)
      \<and> fst (gpd_read_pwm HZ st hw) < 0 \<longrightarrow>
      (let u = gpd_wm2_read_pwm_uncached st hw
       in gpd_read_pwm HZ st hw = (fst u, st, snd u)))"
proof (intro conjI impI)
  assume "\<not> time_after (jiffies hw) (fan_speed_last_update st + HZ)"
  then show "gpd_read_rpm HZ st hw = (uint (fan_speed_cached st), st, hw)"
    by (simp add: gpd_read_rpm_def)
next
  assume a: "time_after (jiffies hw) (fan_speed_last_update st + HZ)
      \<and> quirk st \<in> set gpd_module_quirks \<and> True \<notin> set (intr hw)"
  let ?r = "case board (quirk st) of
                 win_mini \<Rightarrow> gpd_generic_read_rpm_uncached st hw
               | win4_6800u \<Rightarrow> gpd_win4_read_rpm_uncached st hw
               | win_max_2 \<Rightarrow> gpd_wm2_read_rpm_uncached st hw"
  let ?h = "ram hw (rpm_read (quirk st))" and ?l = "ram hw (rpm_read (quirk st) + 1)"
  from a read_rpm_uncached_quiet [of st hw]
  have v: "fst ?r = uint ?h * 256 + uint ?l"
    and t: "length (trace hw) + 24 \<le> length (trace (snd ?r))"
    by simp_all
  have "0 \<le> uint ?h * 256 + uint ?l" by simp
  then have nn: "\<not> fst ?r < 0" by (simp only: v not_less)
  have g: "gpd_read_rpm HZ st hw =
     (uint (word_of_int (fst ?r) :: u16),
      st\<lparr>fan_speed_cached := word_of_int (fst ?r), fan_speed_last_update := jiffies (snd ?r)\<rparr>,
      snd ?r)"
    using a nn by (simp add: gpd_read_rpm_def Let_def split_beta)
  show "fst (gpd_read_rpm HZ st hw) = uint ?h * 256 + uint ?l"
    by (simp only: g fst_conv v rpm_u16_round)
  show "uint (fan_speed_cached (fst (snd (gpd_read_rpm HZ st hw)))) = fst (gpd_read_rpm HZ st hw)"
    by (simp add: g)
  show "fan_speed_last_update (fst (snd (gpd_read_rpm HZ st hw)))
        = jiffies (snd (snd (gpd_read_rpm HZ st hw)))"
    by (simp add: g)
  show "length (trace hw) + 24 \<le> length (trace (snd (snd (gpd_read_rpm HZ st hw))))"
    using t by (simp only: g snd_conv)
next
  assume "fst (gpd_read_rpm HZ st hw) < 0"
  then show "fst (snd (gpd_read_rpm HZ st hw)) = st"
    by (rule read_rpm_failure_keeps_state)
next
  assume "board (quirk st) = win_max_2
      \<and> \<not> time_after (jiffies hw) (read_pwm_last_update st + HZ)"
  then show "gpd_read_pwm HZ st hw = (uint (read_pwm_cached st), st, hw)"
    by (simp add: gpd_read_pwm_def)
next
  assume a: "quirk st = gpd_wm2_quirk \<and> time_after (jiffies hw) (read_pwm_last_update st + HZ)
      \<and> True \<notin> set (intr hw)"
  then have q: "quirk st = gpd_wm2_quirk" and quiet: "True \<notin> set (intr hw)" by simp_all
  have b: "board (quirk st) = win_max_2" "pwm_write (quirk st) = 0x1809"
    by (simp_all add: q gpd_wm2_quirk_def)
  let ?u = "gpd_wm2_read_pwm_uncached st hw"
  have v: "fst ?u = uint (ram hw 0x1809) * 255 div 184"
    using lock_quiet(1) [OF quiet] by (rule wm2_read_pwm_value [OF q])
  have nn: "\<not> fst ?u < 0"
    using wm2_reported_range(1) [of "ram hw 0x1809"] by (simp only: v not_less)
  have t: "length (trace (snd ?u)) = length (trace hw) + 12"
    by (simp only: wm2_read_pwm_hw ecram_read_quiet(4) [OF quiet])
  have g: "gpd_read_pwm HZ st hw =
     (uint (word_of_int (fst ?u) :: u8),
      st\<lparr>read_pwm_cached := word_of_int (fst ?u), read_pwm_last_update := jiffies (snd ?u)\<rparr>,
      snd ?u)"
    using a nn b(1) by (simp add: gpd_read_pwm_def Let_def split_beta)
  show "read_pwm_cached (fst (snd (gpd_read_pwm HZ st hw)))
        = word_of_int (uint (ram hw 0x1809) * 255 div 184)"
    by (simp only: g fst_conv snd_conv v) simp
  show "fst (gpd_read_pwm HZ st hw) = uint (read_pwm_cached (fst (snd (gpd_read_pwm HZ st hw))))"
    by (simp only: g fst_conv snd_conv) simp
  show "read_pwm_last_update (fst (snd (gpd_read_pwm HZ st hw)))
        = jiffies (snd (snd (gpd_read_pwm HZ st hw)))"
    by (simp only: g fst_conv snd_conv) simp
  show "length (trace (snd (snd (gpd_read_pwm HZ st hw)))) = length (trace hw) + 12"
    using t by (simp only: g snd_conv)
next
  assume "fst (gpd_read_pwm HZ st hw) < 0"
  then show "fst (snd (gpd_read_pwm HZ st hw)) = st"
    by (rule read_pwm_failure_keeps_state)
next
  assume "unat t0 + unat HZ < 2 ^ 63 \<and> unat t1 < 2 ^ 63"
  then show "time_after t1 (t0 + HZ) \<longleftrightarrow> unat t0 + unat HZ < unat t1"
    by (intro time_after_no_wrap) simp_all
next
  assume a: "time_after (jiffies hw) (fan_speed_last_update st + HZ)
      \<and> 0 \<le> fst (gpd_read_rpm HZ st hw)"
  let ?r = "(case board (quirk st) of
                   win_mini \<Rightarrow> gpd_generic_read_rpm_uncached st hw
                 | win4_6800u \<Rightarrow> gpd_win4_read_rpm_uncached st hw
                 | win_max_2 \<Rightarrow> gpd_wm2_read_rpm_uncached st hw)"
  have nn: "\<not> fst ?r < 0"
    using a by (auto simp: gpd_read_rpm_def Let_def split_beta split: if_splits)
  then have "0 \<le> fst ?r" by simp
  then have u: "uint (word_of_int (fst ?r) :: u16) = fst ?r"
    using read_rpm_uncached_range [of st hw] by (rule u16_round)
  have g: "gpd_read_rpm HZ st hw =
     (fst ?r,
      st\<lparr>fan_speed_cached := word_of_int (fst ?r), fan_speed_last_update := jiffies (snd ?r)\<rparr>,
      snd ?r)"
    using a nn u by (simp add: gpd_read_rpm_def Let_def split_beta)
  show "let r = ?r
       in gpd_read_rpm HZ st hw =
            (fst r,
             st\<lparr>fan_speed_cached := word_of_int (fst r),
                fan_speed_last_update := jiffies (snd r)\<rparr>,
             snd r)"
    unfolding Let_def by (rule g)
  show "uint (fan_speed_cached (fst (snd (gpd_read_rpm HZ st hw)))) = fst (gpd_read_rpm HZ st hw)"
    by (simp add: g u)
  show "fan_speed_last_update (fst (snd (gpd_read_rpm HZ st hw)))
        = jiffies (snd (snd (gpd_read_rpm HZ st hw)))"
    by (simp add: g)
next
  assume a: "time_after (jiffies hw) (fan_speed_last_update st + HZ)
      \<and> fst (gpd_read_rpm HZ st hw) < 0"
  let ?r = "(case board (quirk st) of
                   win_mini \<Rightarrow> gpd_generic_read_rpm_uncached st hw
                 | win4_6800u \<Rightarrow> gpd_win4_read_rpm_uncached st hw
                 | win_max_2 \<Rightarrow> gpd_wm2_read_rpm_uncached st hw)"
  have "fst ?r < 0"
    using a by (auto simp: gpd_read_rpm_def Let_def split_beta split: if_splits)
  then show "let r = ?r in gpd_read_rpm HZ st hw = (fst r, st, snd r)"
    using a by (simp add: gpd_read_rpm_def Let_def split_beta)
next
  assume a: "board (quirk st) = win_max_2
      \<and> time_after (jiffies hw) (read_pwm_last_update st + HZ)
      \<and> 0 \<le> fst (gpd_read_pwm HZ st hw)"
  let ?u = "gpd_wm2_read_pwm_uncached st hw"
  have nn: "\<not> fst ?u < 0"
    using a by (auto simp: gpd_read_pwm_def Let_def split_beta split: if_splits)
  then show "let u = ?u
       in 0 \<le> fst u
        \<and> gpd_read_pwm HZ st hw =
            (uint (word_of_int (fst u) :: u8),
             st\<lparr>read_pwm_cached := word_of_int (fst u),
                read_pwm_last_update := jiffies (snd u)\<rparr>,
             snd u)"
    using a by (simp add: gpd_read_pwm_def Let_def split_beta)
next
  assume a: "board (quirk st) = win_max_2
      \<and> time_after (jiffies hw) (read_pwm_last_update st + HZ)
      \<and> fst (gpd_read_pwm HZ st hw) < 0"
  let ?u = "gpd_wm2_read_pwm_uncached st hw"
  have "fst ?u < 0"
    using a by (auto simp: gpd_read_pwm_def Let_def split_beta split: if_splits)
  then show "let u = ?u in gpd_read_pwm HZ st hw = (fst u, st, snd u)"
    using a by (simp add: gpd_read_pwm_def Let_def split_beta)
qed

theorem gpd_cached_read_refresh_witness:
  "gpd_read_rpm 250 (gpd_fan_init 250 1000 gpd_win_mini_quirk)
       (fake_ec ((\<lambda>_. 0)(0x0478 := 0x12, 0x0479 := 0x34)) [] 1000)
     = (0, gpd_fan_init 250 1000 gpd_win_mini_quirk,
        fake_ec ((\<lambda>_. 0)(0x0478 := 0x12, 0x0479 := 0x34)) [] 1000)
   \<and> fst (gpd_read_rpm 250 (gpd_fan_init 250 1000 gpd_win_mini_quirk)
       (fake_ec ((\<lambda>_. 0)(0x0478 := 0x12, 0x0479 := 0x34)) [] 1001)) = 0x1234
   \<and> fan_speed_cached (fst (snd (gpd_read_rpm 250 (gpd_fan_init 250 1000 gpd_win_mini_quirk)
       (fake_ec ((\<lambda>_. 0)(0x0478 := 0x12, 0x0479 := 0x34)) [] 1001)))) = 0x1234
   \<and> read_pwm_cached (fst (snd (gpd_read_pwm 250 (gpd_fan_init 250 1000 gpd_wm2_quirk)
       (fake_ec ((\<lambda>_. 0)(0x1809 := 92)) [] 1001)))) = 127
   \<and> \<not> time_after 1000 (750 + 250) \<and> time_after 1001 (750 + 250)
   \<and> fst (gpd_read_rpm 250 (gpd_fan_init 250 1000 gpd_wm2_quirk)
       (fake_ec ((\<lambda>_. 0)(0x0218 := 0x12, 0x0219 := 0x34)) [False, True] 1001)) = 0x1234
   \<and> fan_speed_cached (fst (snd (gpd_read_rpm 250 (gpd_fan_init 250 1000 gpd_wm2_quirk)
       (fake_ec ((\<lambda>_. 0)(0x0218 := 0x12, 0x0219 := 0x34)) [False, True] 1001)))) = 0x1234
   \<and> fan_speed_last_update (fst (snd (gpd_read_rpm 250 (gpd_fan_init 250 1000 gpd_wm2_quirk)
       (fake_ec ((\<lambda>_. 0)(0x0218 := 0x12, 0x0219 := 0x34)) [False, True] 1001)))) = 1001
   \<and> gpd_read_rpm 250 (gpd_fan_init 250 1000 gpd_win_mini_quirk)
       (fake_ec ((\<lambda>_. 0)(0x0478 := 0x12, 0x0479 := 0x34)) [True] 1001)
     = (- 4, gpd_fan_init 250 1000 gpd_win_mini_quirk,
        fake_ec ((\<lambda>_. 0)(0x0478 := 0x12, 0x0479 := 0x34)) [] 1001)"
proof -
  let ?st = "gpd_fan_init 250 1000 gpd_win_mini_quirk"
  let ?wm2 = "gpd_fan_init 250 1000 gpd_wm2_quirk"
  let ?m = "(\<lambda>_. 0)(0x0478 := 0x12, 0x0479 := 0x34) :: u16 \<Rightarrow> u8"
  let ?a = "fake_ec ?m [] 1000" and ?b = "fake_ec ?m [] 1001"
  let ?c = "fake_ec ((\<lambda>_. 0)(0x1809 := 92)) [] 1001"
  have t: "\<not> time_after (jiffies ?a) (fan_speed_last_update ?st + 250)"
    "time_after (jiffies ?b) (fan_speed_last_update ?st + 250)"
    "time_after (jiffies ?c) (read_pwm_last_update ?wm2 + 250)"
    by (simp_all add: time_after_def fake_ec_def gpd_fan_init_def)
  have q: "quirk ?st \<in> set gpd_module_quirks" "quirk ?wm2 = gpd_wm2_quirk"
    "rpm_read (quirk ?st) = 0x0478" "fan_speed_cached ?st = 0"
    by (simp_all add: gpd_fan_init_def gpd_module_quirks_def gpd_win_mini_quirk_def)
  have i: "True \<notin> set (intr ?b)" "True \<notin> set (intr ?c)"
    "ram ?b 0x0478 = 0x12" "ram ?b 0x0479 = 0x34" "ram ?c 0x1809 = 92"
    by (simp_all add: fake_ec_def)
  have A: "gpd_read_rpm 250 ?st ?a = (0, ?st, ?a)"
    using gpd_cached_read_refresh [of ?a ?st 250] t(1) by (simp add: q)
  have B: "fst (gpd_read_rpm 250 ?st ?b) = 0x1234"
    "uint (fan_speed_cached (fst (snd (gpd_read_rpm 250 ?st ?b)))) = uint (0x1234 :: u16)"
    using gpd_cached_read_refresh [of ?b ?st 250] t(2) q(1) i(1) by (simp_all add: q(3) i)
  have C: "read_pwm_cached (fst (snd (gpd_read_pwm 250 ?wm2 ?c))) = 127"
    using gpd_cached_read_refresh [of ?c ?wm2 250] t(3) q(2) i(2) by (simp add: i)
  have D: "\<not> time_after 1000 (750 + 250) \<and> time_after 1001 (750 + 250)"
    using gpd_cached_read_refresh [of ?a ?st 250 750 1000]
          gpd_cached_read_refresh [of ?a ?st 250 750 1001]
    by simp
  from B(2) have B2: "fan_speed_cached (fst (snd (gpd_read_rpm 250 ?st ?b))) = 0x1234"
    by (simp only: word_uint_eq_iff)
  let ?d = "fake_ec ((\<lambda>_. 0)(0x0218 := 0x12, 0x0219 := 0x34)) [False, True] 1001"
  let ?e = "fake_ec ?m [True] 1001"
  have td: "time_after (jiffies ?d) (fan_speed_last_update ?wm2 + 250)"
    "time_after (jiffies ?e) (fan_speed_last_update ?st + 250)"
    by (simp_all add: time_after_def fake_ec_def gpd_fan_init_def)
  have bd: "board (quirk ?wm2) = win_max_2" "board (quirk ?st) = win_mini"
    by (simp_all add: gpd_fan_init_def gpd_wm2_quirk_def gpd_win_mini_quirk_def)
  have ud: "fst (gpd_wm2_read_rpm_uncached ?wm2 ?d) = 0x1234"
    "jiffies (snd (gpd_wm2_read_rpm_uncached ?wm2 ?d)) = 1001"
    by (simp_all add: gpd_wm2_read_rpm_uncached_def gpd_wm2_pwm_ctr_loop.simps
        gpd_generic_read_rpm_uncached_def gpd_ecram_read_def gpd_ecram_write_def
        mutex_lock_interruptible_def fake_ec_def gpd_fan_init_def gpd_wm2_quirk_def
        Let_def EINTR_def)
  have ue: "gpd_generic_read_rpm_uncached ?st ?e = (- 4, fake_ec ?m [] 1001)"
    by (simp add: gpd_generic_read_rpm_uncached_def gpd_ecram_read_def
        mutex_lock_interruptible_def fake_ec_def gpd_fan_init_def gpd_win_mini_quirk_def
        Let_def EINTR_def)
  have rd: "fst (gpd_read_rpm 250 ?wm2 ?d) = 0x1234"
    by (simp add: gpd_read_rpm_def td bd ud Let_def split_beta)
  have re: "fst (gpd_read_rpm 250 ?st ?e) = - 4"
    by (simp add: gpd_read_rpm_def td bd ue Let_def split_beta)
  have E: "gpd_read_rpm 250 ?wm2 ?d =
      (0x1234, ?wm2\<lparr>fan_speed_cached := 0x1234, fan_speed_last_update := 1001\<rparr>,
       snd (gpd_wm2_read_rpm_uncached ?wm2 ?d))"
    using gpd_cached_read_refresh [of ?d ?wm2 250] td(1) rd
    by (simp add: bd ud Let_def)
  have F: "gpd_read_rpm 250 ?st ?e = (- 4, ?st, fake_ec ?m [] 1001)"
    using gpd_cached_read_refresh [of ?e ?st 250] td(2) re
    by (simp add: bd ue Let_def)
  from A B(1) B2 C D E F show ?thesis by simp
qed

text \<open>
  C4 as stated fails when exactly one second has passed: \<open>time_after\<close> is strict. Right
  after \<open>gpd_fan_init\<close>, which back-dates both timestamps by \<open>HZ\<close>, the elapsed time is
  \<open>HZ\<close> ticks, yet the fan speed (the registers hold 0x1234) and the duty cycle (the
  register scales to 127) are both reported as the initial cache content 0, with no port
  access and no change of state.
\<close>

theorem gpd_cached_read_stale_at_exactly_one_second:
  "jiffies (fake_ec ((\<lambda>_. 0)(0x0478 := 0x12, 0x0479 := 0x34)) [] 1000)
     - fan_speed_last_update (gpd_fan_init 250 1000 gpd_win_mini_quirk) = 250
   \<and> gpd_read_rpm 250 (gpd_fan_init 250 1000 gpd_win_mini_quirk)
       (fake_ec ((\<lambda>_. 0)(0x0478 := 0x12, 0x0479 := 0x34)) [] 1000)
     = (0, gpd_fan_init 250 1000 gpd_win_mini_quirk,
        fake_ec ((\<lambda>_. 0)(0x0478 := 0x12, 0x0479 := 0x34)) [] 1000)
   \<and> fst (gpd_generic_read_rpm_uncached (gpd_fan_init 250 1000 gpd_win_mini_quirk)
       (fake_ec ((\<lambda>_. 0)(0x0478 := 0x12, 0x0479 := 0x34)) [] 1000)) = 0x1234
   \<and> jiffies (fake_ec ((\<lambda>_. 0)(0x1809 := 92)) [] 1000)
     - read_pwm_last_update (gpd_fan_init 250 1000 gpd_wm2_quirk) = 250
   \<and> gpd_read_pwm 250 (gpd_fan_init 250 1000 gpd_wm2_quirk)
       (fake_ec ((\<lambda>_. 0)(0x1809 := 92)) [] 1000)
     = (0, gpd_fan_init 250 1000 gpd_wm2_quirk, fake_ec ((\<lambda>_. 0)(0x1809 := 92)) [] 1000)
   \<and> fst (gpd_wm2_read_pwm_uncached (gpd_fan_init 250 1000 gpd_wm2_quirk)
       (fake_ec ((\<lambda>_. 0)(0x1809 := 92)) [] 1000)) = 127"
  by (simp add: gpd_read_rpm_def gpd_read_pwm_def time_after_def
      gpd_generic_read_rpm_uncached_def gpd_wm2_read_pwm_uncached_def s16_cast_def
      gpd_ecram_read_def mutex_lock_interruptible_def fake_ec_def
      gpd_fan_init_def gpd_win_mini_quirk_def gpd_wm2_quirk_def Let_def)

subsection \<open>C5\<close>

text \<open>
  C5. On every board, whatever the PWM register holds, a duty cycle that \<open>gpd_read_pwm\<close>
  returns without error (a non-negative result) lies in [0,255], and so does the value that
  \<open>gpd_fan_hwmon_read\<close> stores for \<open>pwm1\<close>. On win-max-2 the scaled value can exceed 255
  (raw 255 scales to 353); it is narrowed to the \<open>u8\<close> cache field before it is returned
  (353 becomes 97).
\<close>

theorem gpd_read_pwm_in_range:
  "(0 \<le> fst (gpd_read_pwm HZ st hw) \<longrightarrow> fst (gpd_read_pwm HZ st hw) \<le> 255)
 \<and> (\<forall>v. fst (snd (gpd_fan_hwmon_read HZ hwmon_pwm hwmon_pwm_input st hw)) = Some v
        \<longrightarrow> 0 \<le> v \<and> v \<le> 255)"
proof -
  have a: "0 \<le> fst (gpd_read_pwm HZ st hw) \<longrightarrow> fst (gpd_read_pwm HZ st hw) \<le> 255"
    by (cases "board (quirk st)")
       (simp_all add: gpd_read_pwm_def Let_def split_beta u8_le_255)
  have ne: "hwmon_pwm_input \<noteq> hwmon_pwm_enable"
    by (simp add: hwmon_pwm_input_def hwmon_pwm_enable_def)
  have "fst (snd (gpd_fan_hwmon_read HZ hwmon_pwm hwmon_pwm_input st hw)) =
        (if fst (gpd_read_pwm HZ st hw) < 0 then None else Some (fst (gpd_read_pwm HZ st hw)))"
    by (simp add: gpd_fan_hwmon_read_def ne Let_def split_beta)
  with a show ?thesis by auto
qed

theorem gpd_read_pwm_in_range_witness:
  "fst (gpd_read_pwm 250 (gpd_fan_init 250 0 gpd_wm2_quirk)
          (fake_ec ((\<lambda>_. 0)(0x1809 := 255)) [] 1000)) = 97
   \<and> fst (gpd_wm2_read_pwm_uncached (gpd_fan_init 250 0 gpd_wm2_quirk)
          (fake_ec ((\<lambda>_. 0)(0x1809 := 255)) [] 1000)) = 353"
proof -
  let ?st = "gpd_fan_init 250 0 gpd_wm2_quirk"
  let ?hw = "fake_ec ((\<lambda>_. 0)(0x1809 := 255)) [] 1000"
  have q: "quirk ?st = gpd_wm2_quirk" by (simp add: gpd_fan_init_def)
  have l: "fst (mutex_lock_interruptible ?hw) = 0"
    by (simp add: mutex_lock_interruptible_def fake_ec_def)
  have u: "fst (gpd_wm2_read_pwm_uncached ?st ?hw) = 353"
    by (simp add: wm2_read_pwm_value [OF q l]) (simp add: fake_ec_def)
  have t: "time_after (jiffies ?hw) (read_pwm_last_update ?st + 250)"
    by (simp add: time_after_def fake_ec_def gpd_fan_init_def)
  have b: "board (quirk ?st) = win_max_2" by (simp add: gpd_fan_init_def gpd_wm2_quirk_def)
  have r: "fst (gpd_read_pwm 250 ?st ?hw) = 97"
    by (simp add: gpd_read_pwm_def b t u Let_def split_beta)
  from gpd_read_pwm_in_range [of 250 ?st ?hw] r u show ?thesis by simp
qed

subsection \<open>C6\<close>

text \<open>
  C6. On win-max-2 (the profile \<open>gpd_wm2_quirk\<close>: PWM register 0x1809, \<open>pwm_max\<close> 184) an
  uncached PWM read that acquires the lock reports \<open>raw * 255 / 184\<close>, \<open>raw\<close> being the
  byte in the PWM register. When no lock wait is interrupted, writing duty 255 stores the
  raw value 184 = \<open>pwm_max\<close>, and the uncached read that follows reports 255, which is
  within 1 of 255.
\<close>

theorem gpd_wm2_read_pwm_round_trip:
  assumes q: "quirk st = gpd_wm2_quirk"
  shows "(fst (mutex_lock_interruptible hw) = 0 \<longrightarrow>
            fst (gpd_wm2_read_pwm_uncached st hw) = uint (ram hw 0x1809) * 255 div 184)
       \<and> (True \<notin> set (intr hw) \<longrightarrow>
            fst (gpd_generic_write_pwm 255 st hw) = 0
          \<and> ram (snd (gpd_generic_write_pwm 255 st hw)) 0x1809 = 184
          \<and> fst (gpd_wm2_read_pwm_uncached st (snd (gpd_generic_write_pwm 255 st hw))) = 255
          \<and> \<bar>fst (gpd_wm2_read_pwm_uncached st (snd (gpd_generic_write_pwm 255 st hw))) - 255\<bar> \<le> 1)"
proof (intro conjI impI)
  assume "fst (mutex_lock_interruptible hw) = 0"
  then show "fst (gpd_wm2_read_pwm_uncached st hw) = uint (ram hw 0x1809) * 255 div 184"
    by (rule wm2_read_pwm_value [OF q])
next
  assume quiet: "True \<notin> set (intr hw)"
  let ?hw1 = "snd (gpd_generic_write_pwm 255 st hw)"
  have l: "fst (mutex_lock_interruptible hw) = 0" using quiet by (rule lock_quiet)
  have p: "pwm_write (quirk st) = 0x1809" "pwm_max (quirk st) = 184"
    by (simp_all add: q gpd_wm2_quirk_def)
  show w0: "fst (gpd_generic_write_pwm 255 st hw) = 0"
    using l by (simp add: gpd_generic_write_pwm_def Let_def ecram_write_fst)
  show w1: "ram ?hw1 0x1809 = 184"
    using l by (simp add: gpd_generic_write_pwm_def Let_def ecram_write_hw p)
  have "True \<notin> set (tl (intr hw))" using quiet by (cases "intr hw") simp_all
  then have "True \<notin> set (intr ?hw1)"
    by (simp add: gpd_generic_write_pwm_def Let_def ecram_write_hw)
  then have l1: "fst (mutex_lock_interruptible ?hw1) = 0" by (rule lock_quiet)
  show r: "fst (gpd_wm2_read_pwm_uncached st ?hw1) = 255"
    by (simp add: wm2_read_pwm_value [OF q l1] w1)
  then show "\<bar>fst (gpd_wm2_read_pwm_uncached st ?hw1) - 255\<bar> \<le> 1" by simp
qed

theorem gpd_wm2_read_pwm_round_trip_witness:
  "fst (gpd_wm2_read_pwm_uncached (gpd_fan_init 250 0 gpd_wm2_quirk)
          (fake_ec ((\<lambda>_. 0)(0x1809 := 92)) [] 0)) = 127
   \<and> fst (gpd_wm2_read_pwm_uncached (gpd_fan_init 250 0 gpd_wm2_quirk)
          (snd (gpd_generic_write_pwm 255 (gpd_fan_init 250 0 gpd_wm2_quirk)
                  (fake_ec (\<lambda>_. 0) [False, False] 0)))) = 255"
proof -
  let ?st = "gpd_fan_init 250 0 gpd_wm2_quirk"
  let ?hw = "fake_ec ((\<lambda>_. 0)(0x1809 := 92)) [] 0"
  let ?hw' = "fake_ec (\<lambda>_. 0) [False, False] 0"
  have q: "quirk ?st = gpd_wm2_quirk" by (simp add: gpd_fan_init_def)
  have l: "fst (mutex_lock_interruptible ?hw) = 0"
    by (simp add: mutex_lock_interruptible_def fake_ec_def)
  have n: "True \<notin> set (intr ?hw')" by (simp add: fake_ec_def)
  have v: "ram ?hw 0x1809 = 92" by (simp add: fake_ec_def)
  from gpd_wm2_read_pwm_round_trip [OF q, of ?hw] gpd_wm2_read_pwm_round_trip [OF q, of ?hw'] l n v
  show ?thesis by simp
qed

subsection \<open>C7\<close>

text \<open>
  C7. The write of the duty cycle is gated by the mode, per board. On win-mini it is the
  EC write when the mode is \<open>MANUAL\<close>; in the other modes it returns 0 and leaves the
  hardware as it was (no lock taken, no port instruction). On win4 it is the EC write in
  every mode. On win-max-2 it is the EC write unless the mode is \<open>DISABLE\<close>, where it
  returns 0 and leaves the hardware as it was. The EC write, once the lock is acquired,
  returns 0 after twelve port instructions, the last of which sends the raw value that the
  PWM register then holds to the data port.
\<close>

theorem gpd_write_pwm_mode_gate:
  "(board (quirk st) = win_mini \<and> pwm_enable st \<noteq> MANUAL \<longrightarrow>
      gpd_write_pwm val st hw = (0, hw))
 \<and> (board (quirk st) = win_mini \<and> pwm_enable st = MANUAL \<longrightarrow>
      gpd_write_pwm val st hw = gpd_generic_write_pwm val st hw)
 \<and> (board (quirk st) = win4_6800u \<longrightarrow>
      gpd_write_pwm val st hw = gpd_generic_write_pwm val st hw)
 \<and> (board (quirk st) = win_max_2 \<and> pwm_enable st = DISABLE \<longrightarrow>
      gpd_write_pwm val st hw = (0, hw))
 \<and> (board (quirk st) = win_max_2 \<and> pwm_enable st \<noteq> DISABLE \<longrightarrow>
      gpd_write_pwm val st hw = gpd_generic_write_pwm val st hw)
 \<and> (fst (mutex_lock_interruptible hw) = 0 \<longrightarrow>
      fst (gpd_generic_write_pwm val st hw) = 0
      \<and> length (trace (snd (gpd_generic_write_pwm val st hw))) = length (trace hw) + 12
      \<and> last (trace (snd (gpd_generic_write_pwm val st hw)))
          = Outb (ram (snd (gpd_generic_write_pwm val st hw)) (pwm_write (quirk st)))
                 (ucast (data_port (quirk st))))"
  by (simp add: gpd_write_pwm_def gpd_win_mini_write_pwm_def gpd_wm2_write_pwm_def
      gpd_generic_write_pwm_def gpd_ecram_write_def Let_def split_beta lock_ok_fields)

theorem gpd_write_pwm_mode_gate_witness:
  "gpd_write_pwm 100 (gpd_fan_init 250 0 gpd_win_mini_quirk) (fake_ec (\<lambda>_. 0) [] 0)
     = (0, fake_ec (\<lambda>_. 0) [] 0)
   \<and> gpd_write_pwm 100 ((gpd_fan_init 250 0 gpd_wm2_quirk)\<lparr>pwm_enable := DISABLE\<rparr>)
        (fake_ec (\<lambda>_. 0) [] 0)
     = (0, fake_ec (\<lambda>_. 0) [] 0)
   \<and> ram (snd (gpd_write_pwm 100 ((gpd_fan_init 250 0 gpd_win_mini_quirk)\<lparr>pwm_enable := MANUAL\<rparr>)
        (fake_ec (\<lambda>_. 0) [] 0))) 0x047A = 96
   \<and> ram (snd (gpd_write_pwm 100 ((gpd_fan_init 250 0 gpd_win4_quirk)\<lparr>pwm_enable := DISABLE\<rparr>)
        (fake_ec (\<lambda>_. 0) [] 0))) 0xC311 = 50
   \<and> ram (snd (gpd_write_pwm 100 (gpd_fan_init 250 0 gpd_wm2_quirk)
        (fake_ec (\<lambda>_. 0) [] 0))) 0x1809 = 72"
proof -
  let ?hw = "fake_ec (\<lambda>_. 0) [] 0"
  let ?mini = "gpd_fan_init 250 0 gpd_win_mini_quirk"
  let ?win4 = "gpd_fan_init 250 0 gpd_win4_quirk"
  let ?wm2 = "gpd_fan_init 250 0 gpd_wm2_quirk"
  have g: "ram (snd (gpd_generic_write_pwm 100 (?mini\<lparr>pwm_enable := MANUAL\<rparr>) ?hw)) 0x047A = 96"
    "ram (snd (gpd_generic_write_pwm 100 (?win4\<lparr>pwm_enable := DISABLE\<rparr>) ?hw)) 0xC311 = 50"
    "ram (snd (gpd_generic_write_pwm 100 ?wm2 ?hw)) 0x1809 = 72"
    by (simp_all add: gpd_generic_write_pwm_def gpd_ecram_write_def mutex_lock_interruptible_def
        fake_ec_def gpd_fan_init_def gpd_win_mini_quirk_def gpd_win4_quirk_def gpd_wm2_quirk_def
        Let_def)
  have s: "board (quirk ?mini) = win_mini" "pwm_enable ?mini = AUTOMATIC"
    "board (quirk ?win4) = win4_6800u" "board (quirk ?wm2) = win_max_2"
    "pwm_enable ?wm2 = AUTOMATIC"
    by (simp_all add: gpd_fan_init_def gpd_win_mini_quirk_def gpd_win4_quirk_def gpd_wm2_quirk_def)
  from gpd_write_pwm_mode_gate [of ?mini 100 ?hw]
       gpd_write_pwm_mode_gate [of "?wm2\<lparr>pwm_enable := DISABLE\<rparr>" 100 ?hw]
       gpd_write_pwm_mode_gate [of "?mini\<lparr>pwm_enable := MANUAL\<rparr>" 100 ?hw]
       gpd_write_pwm_mode_gate [of "?win4\<lparr>pwm_enable := DISABLE\<rparr>" 100 ?hw]
       gpd_write_pwm_mode_gate [of ?wm2 100 ?hw]
  show ?thesis by (simp add: s g)
qed

subsection \<open>C8\<close>

text \<open>
  C8. Writing \<open>pwm1_enable\<close> with a value other than 0, 1, 2 returns \<open>-EINVAL\<close> and
  changes neither the driver state (so the stored mode stays) nor the hardware (no lock
  taken, no port instruction). A value among 0, 1, 2 is not rejected and is stored as the
  mode: reading the mode back gives that value.
\<close>

theorem gpd_fan_hwmon_write_mode_validation:
  "(val \<notin> {0, 1, 2} \<longrightarrow>
      gpd_fan_hwmon_write hwmon_pwm hwmon_pwm_enable val st hw = (- EINVAL, st, hw))
 \<and> (val \<in> {0, 1, 2} \<longrightarrow>
      fst (gpd_fan_hwmon_write hwmon_pwm hwmon_pwm_enable val st hw) \<noteq> - EINVAL
    \<and> pwm_enable (fst (snd (gpd_fan_hwmon_write hwmon_pwm hwmon_pwm_enable val st hw)))
        = FAN_PWM_ENABLE_of_long val
    \<and> long_of_FAN_PWM_ENABLE
          (pwm_enable (fst (snd (gpd_fan_hwmon_write hwmon_pwm hwmon_pwm_enable val st hw))))
        = sint val)"
proof (intro conjI impI)
  assume "val \<notin> {0, 1, 2}"
  then have "\<not> in_range64 val 0 3" by (simp add: in_range_mode)
  then show "gpd_fan_hwmon_write hwmon_pwm hwmon_pwm_enable val st hw = (- EINVAL, st, hw)"
    by (simp add: gpd_fan_hwmon_write_def)
next
  assume v: "val \<in> {0, 1, 2}"
  then have r: "in_range64 val 0 3" by (simp add: in_range_mode)
  let ?e = "FAN_PWM_ENABLE_of_long val"
  let ?st1 = "st\<lparr>pwm_enable := ?e\<rparr>"
  have w: "gpd_fan_hwmon_write hwmon_pwm hwmon_pwm_enable val st hw
           = (fst (gpd_set_pwm_enable ?e ?st1 hw), ?st1, snd (gpd_set_pwm_enable ?e ?st1 hw))"
    using r by (simp add: gpd_fan_hwmon_write_def Let_def split_beta)
  show "fst (gpd_fan_hwmon_write hwmon_pwm hwmon_pwm_enable val st hw) \<noteq> - EINVAL"
    using set_pwm_enable_fst [of ?e ?st1 hw] by (auto simp: w EINVAL_def EINTR_def)
  show "pwm_enable (fst (snd (gpd_fan_hwmon_write hwmon_pwm hwmon_pwm_enable val st hw))) = ?e"
    by (simp add: w)
  show "long_of_FAN_PWM_ENABLE
          (pwm_enable (fst (snd (gpd_fan_hwmon_write hwmon_pwm hwmon_pwm_enable val st hw))))
        = sint val"
    using v by (auto simp: w FAN_PWM_ENABLE_of_long_def long_of_FAN_PWM_ENABLE_def)
qed

theorem gpd_fan_hwmon_write_mode_validation_witness:
  "gpd_fan_hwmon_write hwmon_pwm hwmon_pwm_enable 3
      (gpd_fan_init 250 0 gpd_wm2_quirk) (fake_ec (\<lambda>_. 0) [] 0)
     = (- 22, gpd_fan_init 250 0 gpd_wm2_quirk, fake_ec (\<lambda>_. 0) [] 0)
   \<and> gpd_fan_hwmon_write hwmon_pwm hwmon_pwm_enable (- 1)
      (gpd_fan_init 250 0 gpd_wm2_quirk) (fake_ec (\<lambda>_. 0) [] 0)
     = (- 22, gpd_fan_init 250 0 gpd_wm2_quirk, fake_ec (\<lambda>_. 0) [] 0)
   \<and> pwm_enable (fst (snd (gpd_fan_hwmon_write hwmon_pwm hwmon_pwm_enable 1
      (gpd_fan_init 250 0 gpd_wm2_quirk) (fake_ec (\<lambda>_. 0) [] 0)))) = MANUAL"
  using gpd_fan_hwmon_write_mode_validation
          [of 3 "gpd_fan_init 250 0 gpd_wm2_quirk" "fake_ec (\<lambda>_. 0) [] 0"]
        gpd_fan_hwmon_write_mode_validation
          [of "- 1" "gpd_fan_init 250 0 gpd_wm2_quirk" "fake_ec (\<lambda>_. 0) [] 0"]
        gpd_fan_hwmon_write_mode_validation
          [of 1 "gpd_fan_init 250 0 gpd_wm2_quirk" "fake_ec (\<lambda>_. 0) [] 0"]
  by (simp add: EINVAL_def FAN_PWM_ENABLE_of_long_def)

subsection \<open>C9\<close>



subsection \<open>C10\<close>

text \<open>
  C10. On win-mini, in mode \<open>DISABLE\<close> or \<open>AUTOMATIC\<close>, writing \<open>pwm1\<close> with \<open>v\<close>
  succeeds, stores the clamped \<open>v\<close> as \<open>pwm_value\<close> and leaves the hardware as it was;
  reading the duty cycle afterwards returns the clamped value, which is \<open>v\<close> itself for
  \<open>v\<close> in [0,255], again without hardware access.
\<close>

theorem gpd_win_mini_duty_reported_without_write:
  assumes b: "board (quirk st) = win_mini" and m: "pwm_enable st \<noteq> MANUAL"
  shows "gpd_fan_hwmon_write hwmon_pwm hwmon_pwm_input v st hw
           = (0, st\<lparr>pwm_value := ucast (clamp_val v 0 255)\<rparr>, hw)
       \<and> gpd_read_pwm HZ (st\<lparr>pwm_value := ucast (clamp_val v 0 255)\<rparr>) hw
           = (if sint v < 0 then 0 else if 255 < sint v then 255 else sint v,
              st\<lparr>pwm_value := ucast (clamp_val v 0 255)\<rparr>, hw)
       \<and> (0 \<le> sint v \<and> sint v \<le> 255 \<longrightarrow>
            fst (gpd_read_pwm HZ
                  (fst (snd (gpd_fan_hwmon_write hwmon_pwm hwmon_pwm_input v st hw)))
                  (snd (snd (gpd_fan_hwmon_write hwmon_pwm hwmon_pwm_input v st hw))))
            = sint v)"
proof -
  let ?st1 = "st\<lparr>pwm_value := ucast (clamp_val v 0 255)\<rparr>"
  have ne: "hwmon_pwm_input \<noteq> hwmon_pwm_enable"
    by (simp add: hwmon_pwm_input_def hwmon_pwm_enable_def)
  have w: "gpd_fan_hwmon_write hwmon_pwm hwmon_pwm_input v st hw = (0, ?st1, hw)"
    using b m ne
    by (simp add: gpd_fan_hwmon_write_def gpd_write_pwm_def gpd_win_mini_write_pwm_def Let_def)
  have r: "gpd_read_pwm HZ ?st1 hw
           = (if sint v < 0 then 0 else if 255 < sint v then 255 else sint v, ?st1, hw)"
    using b by (simp add: gpd_read_pwm_def duty_of_long)
  from w r show ?thesis by simp
qed

theorem gpd_win_mini_duty_reported_without_write_witness:
  "gpd_fan_hwmon_write hwmon_pwm hwmon_pwm_input 77
      (gpd_fan_init 250 0 gpd_win_mini_quirk) (fake_ec (\<lambda>_. 0) [] 0)
     = (0, (gpd_fan_init 250 0 gpd_win_mini_quirk)\<lparr>pwm_value := 77\<rparr>, fake_ec (\<lambda>_. 0) [] 0)
   \<and> fst (gpd_read_pwm 250 ((gpd_fan_init 250 0 gpd_win_mini_quirk)\<lparr>pwm_value := 77\<rparr>)
           (fake_ec (\<lambda>_. 0) [] 0)) = 77"
proof -
  let ?st = "gpd_fan_init 250 0 gpd_win_mini_quirk" and ?hw = "fake_ec (\<lambda>_. 0) [] 0"
  have b: "board (quirk ?st) = win_mini" and m: "pwm_enable ?st \<noteq> MANUAL"
    by (simp_all add: gpd_fan_init_def gpd_win_mini_quirk_def)
  have c: "(ucast (clamp_val 77 0 255) :: u8) = 77"
    by (simp add: clamp_val_def word_sless_alt)
  from gpd_win_mini_duty_reported_without_write [OF b m, of 77 ?hw 250]
  show ?thesis by (simp add: c)
qed

end
